theory Spec2Isabelle
  imports Main
begin

section \<open>Data model\<close>

subsection \<open>Values of the go-jira library that the code reads\<close>

text \<open>
  \<^verbatim>\<open>time.Time\<close> is modelled by the instant it denotes, counted in nanoseconds from the
  zero time (January 1, year 1, 00:00:00 UTC); the zero value of the Go type is \<open>0\<close>.
  The location of a time is not modelled: none of the code below reads it.
\<close>

type_synonym gotime = int

definition IsZero :: "gotime \<Rightarrow> bool" where
  "IsZero t = (t = 0)"

text \<open>
  A value of type \<^verbatim>\<open>interface{}\<close> as \<^verbatim>\<open>encoding/json\<close> decodes it: nil, bool, float64,
  string, \<^verbatim>\<open>[]interface{}\<close> or \<^verbatim>\<open>map[string]interface{}\<close>. The code only ever asks for
  the last three dynamic types; the payload of a number is never inspected.
\<close>

datatype json =
    JNull
  | JBool bool
  | JNum int
  | JStr string
  | JArr "json list"
  | JObj "(string \<times> json) list"

text \<open>\<^verbatim>\<open>jira.User\<close>: the login name and the display name are separate fields.\<close>

record User =
  User_AccountID :: string
  User_Name :: string
  User_DisplayName :: string

record IssueType =
  IssueType_Name :: string

text \<open>
  \<^verbatim>\<open>jira.IssueFields\<close>, restricted to the fields the code reads. \<^verbatim>\<open>Assignee\<close> and
  \<^verbatim>\<open>Reporter\<close> are pointers (\<open>None\<close> is nil); \<^verbatim>\<open>Unknowns\<close> is a
  \<^verbatim>\<open>map[string]interface{}\<close>, where indexing a missing key yields nil.
\<close>

record IssueFields =
  Fields_Assignee :: "User option"
  Fields_Reporter :: "User option"
  Fields_Created :: gotime
  Fields_Updated :: gotime
  Fields_Resolutiondate :: gotime
  Fields_Type :: IssueType
  Fields_Unknowns :: "string \<rightharpoonup> json"

text \<open>\<^verbatim>\<open>jira.Issue\<close>; \<^verbatim>\<open>Fields\<close> is a pointer to \<^verbatim>\<open>IssueFields\<close> and may be nil.\<close>

record Issue =
  Issue_ID :: string
  Issue_Key :: string
  Issue_Fields :: "IssueFields option"

subsection \<open>The repository's own types\<close>

record JiraIssue =
  Key :: string
  Created :: gotime
  Updated :: gotime
  Resolved :: gotime
  Assignee :: string
  Closed :: gotime
  Head :: string
  Started :: gotime
  Firefighting :: gotime
  Fixed :: gotime
  Severity :: string
  Service :: string
  RootCause :: string
  Regions :: string
  Recovery :: string
  Reporter :: string
  Detected :: gotime
  Escalated :: gotime
  Metrics :: string
  IssueType :: string
  Environment :: string
  Application :: string
  BusinessProcess :: string
  Score :: int

record JiraClient =
  baseURL :: string
  username :: string
  projectKey :: string
  queryFilter :: string
  refreshInterval :: int
  lastRefresh :: gotime
  issueCache :: "string \<rightharpoonup> Issue"

section \<open>Field Mapper\<close>

text \<open>A nil pointer dereference aborts the goroutine; it is the only panic of the code below.\<close>

datatype panic = NilPointerDereference

text \<open>
  \<^verbatim>\<open>time.Parse\<close> belongs to the Go standard library. The mapper takes it as a parameter
  \<open>Parse layout value\<close>, with \<open>None\<close> for a non-nil error; the layout it is called with
  is the constant below.
\<close>

type_synonym time_Parse = "string \<Rightarrow> string \<Rightarrow> gotime option"

definition timestamp_layout :: string where
  "timestamp_layout = ''2006-01-02T15:04:05.999-0700''"

text \<open>The literal \<^verbatim>\<open>&JiraIssue{Key: issue.Key}\<close>: every other field has its zero value.\<close>

definition new_JiraIssue :: "string \<Rightarrow> JiraIssue" where
  "new_JiraIssue k =
     \<lparr>Key = k, Created = 0, Updated = 0, Resolved = 0, Assignee = [], Closed = 0, Head = [],
      Started = 0, Firefighting = 0, Fixed = 0, Severity = [], Service = [], RootCause = [],
      Regions = [], Recovery = [], Reporter = [], Detected = 0, Escalated = 0, Metrics = [],
      IssueType = [], Environment = [], Application = [], BusinessProcess = [], Score = 0\<rparr>"

text \<open>
  The body of the loop of \<^verbatim>\<open>ConvertToCustomIssues\<close> is a sequence of guarded assignments to
  \<^verbatim>\<open>customIssue\<close>. Each block of the source is one function here, taking the fields of the
  raw issue and the record built so far.
\<close>

definition set_Assignee :: "IssueFields \<Rightarrow> JiraIssue \<Rightarrow> JiraIssue" where
  "set_Assignee f c =
     (case Fields_Assignee f of
        Some u \<Rightarrow> c\<lparr>Assignee := User_Name u\<rparr>
      | None \<Rightarrow> c)"

definition set_Reporter :: "IssueFields \<Rightarrow> JiraIssue \<Rightarrow> JiraIssue" where
  "set_Reporter f c =
     (case Fields_Reporter f of
        Some u \<Rightarrow> c\<lparr>Reporter := User_Name u\<rparr>
      | None \<Rightarrow> c)"

definition set_Created_Updated :: "IssueFields \<Rightarrow> JiraIssue \<Rightarrow> JiraIssue" where
  "set_Created_Updated f c = c\<lparr>Created := Fields_Created f, Updated := Fields_Updated f\<rparr>"

definition set_Resolved :: "IssueFields \<Rightarrow> JiraIssue \<Rightarrow> JiraIssue" where
  "set_Resolved f c =
     (if \<not> IsZero (Fields_Resolutiondate f) then c\<lparr>Resolved := Fields_Resolutiondate f\<rparr>
      else c)"

definition set_IssueType :: "IssueFields \<Rightarrow> JiraIssue \<Rightarrow> JiraIssue" where
  "set_IssueType f c =
     (if IssueType_Name (Fields_Type f) \<noteq> [] then c\<lparr>IssueType := IssueType_Name (Fields_Type f)\<rparr>
      else c)"

text \<open>customfield_20908 (closed)\<close>

definition set_Closed :: "time_Parse \<Rightarrow> IssueFields \<Rightarrow> JiraIssue \<Rightarrow> JiraIssue" where
  "set_Closed Parse f c =
     (case Fields_Unknowns f ''customfield_20908'' of
        Some (JStr val) \<Rightarrow>
          if val \<noteq> [] then
            (case Parse timestamp_layout val of Some t \<Rightarrow> c\<lparr>Closed := t\<rparr> | None \<Rightarrow> c)
          else c
      | _ \<Rightarrow> c)"

text \<open>customfield_22501 (head)\<close>

definition set_Head :: "IssueFields \<Rightarrow> JiraIssue \<Rightarrow> JiraIssue" where
  "set_Head f c =
     (case Fields_Unknowns f ''customfield_22501'' of
        Some (JObj val) \<Rightarrow>
          (case map_of val ''name'' of Some (JStr name) \<Rightarrow> c\<lparr>Head := name\<rparr> | _ \<Rightarrow> c)
      | _ \<Rightarrow> c)"

text \<open>customfield_18117 (started)\<close>

definition set_Started :: "time_Parse \<Rightarrow> IssueFields \<Rightarrow> JiraIssue \<Rightarrow> JiraIssue" where
  "set_Started Parse f c =
     (case Fields_Unknowns f ''customfield_18117'' of
        Some (JStr val) \<Rightarrow>
          if val \<noteq> [] then
            (case Parse timestamp_layout val of Some t \<Rightarrow> c\<lparr>Started := t\<rparr> | None \<Rightarrow> c)
          else c
      | _ \<Rightarrow> c)"

text \<open>customfield_21200 (firefighting)\<close>

definition set_Firefighting :: "time_Parse \<Rightarrow> IssueFields \<Rightarrow> JiraIssue \<Rightarrow> JiraIssue" where
  "set_Firefighting Parse f c =
     (case Fields_Unknowns f ''customfield_21200'' of
        Some (JStr val) \<Rightarrow>
          if val \<noteq> [] then
            (case Parse timestamp_layout val of Some t \<Rightarrow> c\<lparr>Firefighting := t\<rparr> | None \<Rightarrow> c)
          else c
      | _ \<Rightarrow> c)"

text \<open>customfield_18119 (severity)\<close>

definition set_Severity :: "IssueFields \<Rightarrow> JiraIssue \<Rightarrow> JiraIssue" where
  "set_Severity f c =
     (case Fields_Unknowns f ''customfield_18119'' of
        Some (JObj val) \<Rightarrow>
          (case map_of val ''value'' of Some (JStr v) \<Rightarrow> c\<lparr>Severity := v\<rparr> | _ \<Rightarrow> c)
      | _ \<Rightarrow> c)"

text \<open>customfield_33803 (service)\<close>

definition set_Service :: "IssueFields \<Rightarrow> JiraIssue \<Rightarrow> JiraIssue" where
  "set_Service f c =
     (case Fields_Unknowns f ''customfield_33803'' of
        Some (JArr val) \<Rightarrow>
          if length val > 0 then
            (case val ! 0 of JStr serviceVal \<Rightarrow> c\<lparr>Service := serviceVal\<rparr> | _ \<Rightarrow> c)
          else c
      | _ \<Rightarrow> c)"

text \<open>customfield_37238 (root cause)\<close>

definition set_RootCause :: "IssueFields \<Rightarrow> JiraIssue \<Rightarrow> JiraIssue" where
  "set_RootCause f c =
     (case Fields_Unknowns f ''customfield_37238'' of
        Some (JArr val) \<Rightarrow>
          if length val > 0 then
            (case val ! 0 of JStr causeVal \<Rightarrow> c\<lparr>RootCause := causeVal\<rparr> | _ \<Rightarrow> c)
          else c
      | _ \<Rightarrow> c)"

text \<open>
  One iteration of the loop. The first read of \<^verbatim>\<open>issue.Fields.Assignee\<close> dereferences
  \<^verbatim>\<open>issue.Fields\<close>, which panics when that pointer is nil.
\<close>

definition convert_issue :: "time_Parse \<Rightarrow> Issue \<Rightarrow> panic + JiraIssue" where
  "convert_issue Parse issue =
     (case Issue_Fields issue of
        None \<Rightarrow> Inl NilPointerDereference
      | Some f \<Rightarrow>
          Inr (set_RootCause f (set_Service f (set_Severity f
              (set_Firefighting Parse f (set_Started Parse f (set_Head f (set_Closed Parse f
              (set_IssueType f (set_Resolved f (set_Created_Updated f
              (set_Reporter f (set_Assignee f (new_JiraIssue (Issue_Key issue)))))))))))))))"

text \<open>The loop over the batch, appending to \<^verbatim>\<open>customIssues\<close>.\<close>

fun convert_loop :: "time_Parse \<Rightarrow> Issue list \<Rightarrow> JiraIssue list \<Rightarrow> panic + JiraIssue list" where
  "convert_loop Parse [] customIssues = Inr customIssues"
| "convert_loop Parse (issue # issues) customIssues =
     (case convert_issue Parse issue of
        Inl p \<Rightarrow> Inl p
      | Inr customIssue \<Rightarrow> convert_loop Parse issues (customIssues @ [customIssue]))"

text \<open>
  \<^verbatim>\<open>ConvertToCustomIssues\<close> is a method of the client: it takes the client state and
  returns it with its result, which is the pair of the converted issues and the error
  (\<open>None\<close> is the nil error).
\<close>

definition ConvertToCustomIssues ::
  "time_Parse \<Rightarrow> JiraClient \<Rightarrow> Issue list \<Rightarrow> (panic + JiraIssue list \<times> string option) \<times> JiraClient" where
  "ConvertToCustomIssues Parse j issues =
     (case convert_loop Parse issues [] of
        Inl p \<Rightarrow> (Inl p, j)
      | Inr customIssues \<Rightarrow> (Inr (customIssues, None), j))"

subsection \<open>The value a custom field contributes\<close>

text \<open>
  What each guarded block of the mapper reads out of a custom field, as a function of the
  field's value alone: a non-empty string that parses as a timestamp, a string-valued
  property of an object, or the string at the head of an array. \<open>None\<close> means that the block
  assigns nothing.
\<close>

definition timestamp_value :: "time_Parse \<Rightarrow> json option \<Rightarrow> gotime option" where
  "timestamp_value Parse v =
     (case v of
        Some (JStr val) \<Rightarrow> if val \<noteq> [] then Parse timestamp_layout val else None
      | _ \<Rightarrow> None)"

definition property_value :: "string \<Rightarrow> json option \<Rightarrow> string option" where
  "property_value k v =
     (case v of
        Some (JObj val) \<Rightarrow> (case map_of val k of Some (JStr s) \<Rightarrow> Some s | _ \<Rightarrow> None)
      | _ \<Rightarrow> None)"

definition first_string_value :: "json option \<Rightarrow> string option" where
  "first_string_value v =
     (case v of
        Some (JArr val) \<Rightarrow>
          if length val > 0 then (case val ! 0 of JStr s \<Rightarrow> Some s | _ \<Rightarrow> None) else None
      | _ \<Rightarrow> None)"

definition or_else :: "'a \<Rightarrow> 'a option \<Rightarrow> 'a" where
  "or_else d v = (case v of Some x \<Rightarrow> x | None \<Rightarrow> d)"

section \<open>Query Engine and Snapshot Cache\<close>

text \<open>
  \<^verbatim>\<open>NewJiraClient\<close>. The only failure is the one \<^verbatim>\<open>jira.NewClient\<close> reports; it is passed in as
  \<open>client_err\<close> (\<open>None\<close> for nil). The new client has an empty cache and the zero time as
  its last refresh time.
\<close>

definition NewJiraClient ::
  "string option \<Rightarrow> string \<Rightarrow> string \<Rightarrow> string \<Rightarrow> string \<Rightarrow> int \<Rightarrow> string + JiraClient" where
  "NewJiraClient client_err baseURL' username' projectKey' queryFilter' refreshInterval' =
     (case client_err of
        Some err \<Rightarrow> Inl (''error creating jira client: '' @ err)
      | None \<Rightarrow>
          Inr \<lparr>baseURL = baseURL', username = username', projectKey = projectKey',
               queryFilter = queryFilter', refreshInterval = refreshInterval',
               lastRefresh = 0, issueCache = Map.empty\<rparr>)"

text \<open>\<^verbatim>\<open>jira.SearchOptions\<close>, with the fields the code sets.\<close>

record SearchOptions =
  StartAt :: nat
  MaxResults :: nat
  Fields :: "string list"

text \<open>
  The remote search endpoint, \<^verbatim>\<open>j.client.Issue.Search(jql, options)\<close>: the page of issues it
  answers with, or the message of the error it returns. Within one retrieval every request
  has a different offset, so a function of the request describes any sequence of answers.
\<close>

type_synonym Search = "string \<Rightarrow> SearchOptions \<Rightarrow> string + Issue list"

definition search_fields :: "string list" where
  "search_fields =
     [''key'', ''created'', ''updated'', ''resolutiondate'', ''assignee'',
      ''customfield_22501'', ''customfield_18117'', ''customfield_21200'',
      ''customfield_20908'', ''customfield_20905'', ''customfield_18119'',
      ''customfield_33803'', ''customfield_21501'', ''customfield_24800'',
      ''customfield_20911'', ''customfield_21201'', ''reporter'',
      ''customfield_31207'', ''customfield_31208'', ''issuetype'',
      ''customfield_29800'', ''customfield_28222'', ''customfield_32112'',
      ''customfield_30304'', ''customfield_37238'']"

text \<open>The JQL string of \<^verbatim>\<open>GetIssues\<close>: the two \<^verbatim>\<open>fmt.Sprintf\<close> calls.\<close>

definition build_jql :: "JiraClient \<Rightarrow> string" where
  "build_jql j =
     (let jql = ''project = '' @ projectKey j @
                '' AND status not in (Cancelled,Rejected) AND created>=startOfYear(-1y) ORDER BY created DESC''
      in if queryFilter j \<noteq> [] then jql @ '' AND '' @ queryFilter j else jql)"

definition updateIssueCache :: "JiraClient \<Rightarrow> Issue \<Rightarrow> JiraClient" where
  "updateIssueCache j issue = j\<lparr>issueCache := (issueCache j)(Issue_ID issue \<mapsto> issue)\<rparr>"

text \<open>The inner loop over a page: every issue is appended to the result and written to the cache.\<close>

fun append_chunk :: "Issue list \<Rightarrow> Issue list \<times> JiraClient \<Rightarrow> Issue list \<times> JiraClient" where
  "append_chunk [] (allIssues, j) = (allIssues, j)"
| "append_chunk (issue # chunk) (allIssues, j) =
     append_chunk chunk (allIssues @ [issue], updateIssueCache j issue)"

text \<open>
  The pagination loop. It need not end (a server may answer every request with a full page),
  so the result is an option, \<open>None\<close> for a loop that never returns. The result carries the
  value \<^verbatim>\<open>GetIssues\<close> returns (\<open>Inl\<close> the error message), the client state, and the list of
  the requests issued, in order; the last is kept only to state what was sent.
\<close>

partial_function (option) search_loop ::
  "Search \<Rightarrow> string \<Rightarrow> nat \<Rightarrow> nat \<Rightarrow> Issue list \<Rightarrow> JiraClient \<Rightarrow> SearchOptions list \<Rightarrow>
   ((string + Issue list) \<times> JiraClient \<times> SearchOptions list) option" where
  "search_loop srv jql maxResults startAt allIssues j requests =
     (let options = \<lparr>StartAt = startAt, MaxResults = maxResults, Fields = search_fields\<rparr> in
      case srv jql options of
        Inl err \<Rightarrow> Some (Inl (''error searching issues: '' @ err), j, requests @ [options])
      | Inr chunk \<Rightarrow>
          if length chunk = 0 then Some (Inr allIssues, j, requests @ [options])
          else
            (case append_chunk chunk (allIssues, j) of
               (allIssues', j') \<Rightarrow>
                 if length chunk < maxResults then Some (Inr allIssues', j', requests @ [options])
                 else search_loop srv jql maxResults (startAt + length chunk) allIssues' j'
                        (requests @ [options])))"

definition GetIssues ::
  "Search \<Rightarrow> JiraClient \<Rightarrow> ((string + Issue list) \<times> JiraClient \<times> SearchOptions list) option" where
  "GetIssues srv j = search_loop srv (build_jql j) 1000 0 [] j []"

section \<open>Refresh Scheduler\<close>

text \<open>What a refresh cycle reports to the log: the error, or the number of issues.\<close>

datatype report = Failed string | Refreshed nat

text \<open>
  \<^verbatim>\<open>RefreshData\<close>; \<open>now\<close> is the value \<^verbatim>\<open>time.Now()\<close> returns at the commit, should the cycle
  reach it. A panic of the mapper is not recovered.
\<close>

definition RefreshData ::
  "Search \<Rightarrow> time_Parse \<Rightarrow> gotime \<Rightarrow> JiraClient \<Rightarrow> (panic + report \<times> JiraClient) option" where
  "RefreshData srv Parse now j =
     (case GetIssues srv j of
        None \<Rightarrow> None
      | Some (Inl err, j', requests) \<Rightarrow> Some (Inr (Failed err, j'))
      | Some (Inr issues, j', requests) \<Rightarrow>
          (case ConvertToCustomIssues Parse j' issues of
             (Inl p, j'') \<Rightarrow> Some (Inl p)
           | (Inr (customIssues, Some err), j'') \<Rightarrow> Some (Inr (Failed err, j''))
           | (Inr (customIssues, None), j'') \<Rightarrow>
               Some (Inr (Refreshed (length customIssues), j''\<lparr>lastRefresh := now\<rparr>))))"

definition GetLastRefreshTime :: "JiraClient \<Rightarrow> gotime" where
  "GetLastRefreshTime j = lastRefresh j"

text \<open>
  The goroutine of \<^verbatim>\<open>StartRefreshLoop\<close> runs the cycles one after the other: the initial load,
  then one cycle per tick until the context is cancelled. Each cycle is given by the
  behaviour of the server during it and the clock reading at its commit. The result lists,
  per cycle, the report and the client state after it.
\<close>

fun refresh_cycles ::
  "time_Parse \<Rightarrow> (Search \<times> gotime) list \<Rightarrow> JiraClient \<Rightarrow> (panic + (report \<times> JiraClient) list) option" where
  "refresh_cycles Parse [] j = Some (Inr [])"
| "refresh_cycles Parse ((srv, now) # ticks) j =
     (case RefreshData srv Parse now j of
        None \<Rightarrow> None
      | Some (Inl p) \<Rightarrow> Some (Inl p)
      | Some (Inr (r, j')) \<Rightarrow>
          (case refresh_cycles Parse ticks j' of
             None \<Rightarrow> None
           | Some (Inl p) \<Rightarrow> Some (Inl p)
           | Some (Inr rs) \<Rightarrow> Some (Inr ((r, j') # rs))))"

definition StartRefreshLoop ::
  "time_Parse \<Rightarrow> Search \<times> gotime \<Rightarrow> (Search \<times> gotime) list \<Rightarrow> JiraClient \<Rightarrow>
   (panic + (report \<times> JiraClient) list) option" where
  "StartRefreshLoop Parse initial ticks j = refresh_cycles Parse (initial # ticks) j"

section \<open>Notions used to state the properties\<close>

text \<open>The request for the page at offset \<open>s\<close> with page size \<open>m\<close>.\<close>

definition page_request :: "nat \<Rightarrow> nat \<Rightarrow> SearchOptions" where
  "page_request s m = \<lparr>StartAt = s, MaxResults = m, Fields = search_fields\<rparr>"

text \<open>
  The pagination protocol as the specification words it, as a predicate on the list of
  requests sent: the first asks for offset \<open>s\<close>; after a page the next request advances the
  offset by the number of records that page returned; and the list ends exactly at the first
  page that returns fewer records than the page size or none at all, or that fails.
\<close>

fun paginates :: "Search \<Rightarrow> string \<Rightarrow> nat \<Rightarrow> nat \<Rightarrow> SearchOptions list \<Rightarrow> bool" where
  "paginates srv jql m s [] = False"
| "paginates srv jql m s (r # rs) =
     (r = page_request s m \<and>
      (case srv jql r of
         Inl err \<Rightarrow> rs = []
       | Inr chunk \<Rightarrow>
           if length chunk = 0 \<or> length chunk < m then rs = []
           else paginates srv jql m (s + length chunk) rs))"

text \<open>The issues the server returned for a list of requests, in order; a failed page has none.\<close>

definition page_of :: "Search \<Rightarrow> string \<Rightarrow> SearchOptions \<Rightarrow> Issue list" where
  "page_of srv jql r = (case srv jql r of Inl err \<Rightarrow> [] | Inr chunk \<Rightarrow> chunk)"

definition fetched :: "Search \<Rightarrow> string \<Rightarrow> SearchOptions list \<Rightarrow> Issue list" where
  "fetched srv jql rs = concat (map (page_of srv jql) rs)"

text \<open>The client after \<^verbatim>\<open>updateIssueCache\<close> has been called on each issue of a list in turn.\<close>

definition cache_all :: "Issue list \<Rightarrow> JiraClient \<Rightarrow> JiraClient" where
  "cache_all issues j = fold (\<lambda>issue j'. updateIssueCache j' issue) issues j"

text \<open>
  A server that holds a fixed result set and answers a request with the slice it asks for.
\<close>

definition list_server :: "Issue list \<Rightarrow> Search" where
  "list_server xs jql options = Inr (take (MaxResults options) (drop (StartAt options) xs))"

text \<open>A raw issue with the value of one custom field replaced (\<open>None\<close> removes the field).\<close>

definition with_custom_field :: "string \<Rightarrow> json option \<Rightarrow> Issue \<Rightarrow> Issue" where
  "with_custom_field k v issue =
     issue\<lparr>Issue_Fields :=
       map_option (\<lambda>f. f\<lparr>Fields_Unknowns := (Fields_Unknowns f)(k := v)\<rparr>) (Issue_Fields issue)\<rparr>"

text \<open>Whether a cycle reported success.\<close>

fun succeeded :: "report \<Rightarrow> bool" where
  "succeeded (Refreshed n) = True"
| "succeeded (Failed err) = False"

section \<open>Example inputs\<close>

text \<open>
  A finite table standing for \<^verbatim>\<open>time.Parse\<close> on the timestamps of the examples: with the
  fixed layout it knows three instants of March 1, 2024 (UTC) and rejects every other
  string, the empty one and a malformed one among them.
\<close>

definition sample_Parse :: time_Parse where
  "sample_Parse layout val =
     (if layout = ''2006-01-02T15:04:05.999-0700'' then
        map_of [(''2024-03-01T10:00:00.000+0000'', 63844884000000000000),
                (''2024-03-01T10:05:00.000+0000'', 63844884300000000000),
                (''2024-03-01T12:30:00.000+0000'', 63844893000000000000)] val
      else None)"

definition jdoe :: User where
  "jdoe = \<lparr>User_AccountID = ''5b10a2844c20165700ede21g'', User_Name = ''jdoe'',
           User_DisplayName = ''John Doe''\<rparr>"

definition asmith :: User where
  "asmith = \<lparr>User_AccountID = ''5b10ac8d82e05b22cc7d4ef5'', User_Name = ''asmith'',
             User_DisplayName = ''Alice Smith''\<rparr>"

text \<open>The raw issue of the specification's scenario: no resolution date, a severity and a service.\<close>

definition inci_1_fields :: IssueFields where
  "inci_1_fields =
     \<lparr>Fields_Assignee = None, Fields_Reporter = None,
      Fields_Created = 63844880400000000000, Fields_Updated = 63844884000000000000,
      Fields_Resolutiondate = 0,
      Fields_Type = \<lparr>IssueType_Name = ''Incident''\<rparr>,
      Fields_Unknowns =
        [''customfield_18119'' \<mapsto> JObj [(''value'', JStr ''SEV2'')],
         ''customfield_33803'' \<mapsto> JArr [JStr ''payments'']]\<rparr>"

definition inci_1 :: Issue where
  "inci_1 =
     \<lparr>Issue_ID = ''10001'', Issue_Key = ''INCI-1'',
      Issue_Fields = Some inci_1_fields\<rparr>"

text \<open>A raw issue that carries every field the mapper reads.\<close>

definition inci_2_fields :: IssueFields where
  "inci_2_fields =
     \<lparr>Fields_Assignee = Some jdoe, Fields_Reporter = Some asmith,
      Fields_Created = 63844880400000000000, Fields_Updated = 63844893000000000000,
      Fields_Resolutiondate = 63844893000000000000,
      Fields_Type = \<lparr>IssueType_Name = ''Incident''\<rparr>,
      Fields_Unknowns =
        [''customfield_20908'' \<mapsto> JStr ''2024-03-01T12:30:00.000+0000'',
         ''customfield_22501'' \<mapsto> JObj [(''name'', JStr ''platform'')],
         ''customfield_18117'' \<mapsto> JStr ''2024-03-01T10:00:00.000+0000'',
         ''customfield_21200'' \<mapsto> JStr ''2024-03-01T10:05:00.000+0000'',
         ''customfield_18119'' \<mapsto> JObj [(''value'', JStr ''SEV1'')],
         ''customfield_33803'' \<mapsto> JArr [JStr ''checkout'', JStr ''payments''],
         ''customfield_37238'' \<mapsto> JArr [JStr ''deployment'']]\<rparr>"

definition inci_2 :: Issue where
  "inci_2 =
     \<lparr>Issue_ID = ''10002'', Issue_Key = ''INCI-2'',
      Issue_Fields = Some inci_2_fields\<rparr>"

text \<open>
  A raw issue whose custom fields are all present with the wrong shape, an empty value or an
  unparsable timestamp.
\<close>

definition inci_3_fields :: IssueFields where
  "inci_3_fields =
     \<lparr>Fields_Assignee = Some jdoe, Fields_Reporter = None,
      Fields_Created = 63844880400000000000, Fields_Updated = 63844884000000000000,
      Fields_Resolutiondate = 0,
      Fields_Type = \<lparr>IssueType_Name = ''Incident''\<rparr>,
      Fields_Unknowns =
        [''customfield_20908'' \<mapsto> JStr ''yesterday'',
         ''customfield_22501'' \<mapsto> JStr ''platform'',
         ''customfield_18117'' \<mapsto> JStr [],
         ''customfield_21200'' \<mapsto> JNum 5,
         ''customfield_18119'' \<mapsto> JObj [(''id'', JStr ''10'')],
         ''customfield_33803'' \<mapsto> JArr [],
         ''customfield_37238'' \<mapsto> JArr [JNull]]\<rparr>"

definition inci_3 :: Issue where
  "inci_3 =
     \<lparr>Issue_ID = ''10003'', Issue_Key = ''INCI-3'',
      Issue_Fields = Some inci_3_fields\<rparr>"

text \<open>The normalized issues expected for the first three examples.\<close>

definition normalized_inci_1 :: JiraIssue where
  "normalized_inci_1 =
     \<lparr>Key = ''INCI-1'', Created = 63844880400000000000, Updated = 63844884000000000000,
      Resolved = 0, Assignee = [], Closed = 0, Head = [], Started = 0, Firefighting = 0,
      Fixed = 0, Severity = ''SEV2'', Service = ''payments'', RootCause = [], Regions = [],
      Recovery = [], Reporter = [], Detected = 0, Escalated = 0, Metrics = [],
      IssueType = ''Incident'', Environment = [], Application = [], BusinessProcess = [],
      Score = 0\<rparr>"

definition normalized_inci_2 :: JiraIssue where
  "normalized_inci_2 =
     \<lparr>Key = ''INCI-2'', Created = 63844880400000000000, Updated = 63844893000000000000,
      Resolved = 63844893000000000000, Assignee = ''jdoe'', Closed = 63844893000000000000,
      Head = ''platform'', Started = 63844884000000000000,
      Firefighting = 63844884300000000000, Fixed = 0, Severity = ''SEV1'',
      Service = ''checkout'', RootCause = ''deployment'', Regions = [], Recovery = [],
      Reporter = ''asmith'', Detected = 0, Escalated = 0, Metrics = [],
      IssueType = ''Incident'', Environment = [], Application = [], BusinessProcess = [],
      Score = 0\<rparr>"

definition normalized_inci_3 :: JiraIssue where
  "normalized_inci_3 =
     \<lparr>Key = ''INCI-3'', Created = 63844880400000000000, Updated = 63844884000000000000,
      Resolved = 0, Assignee = ''jdoe'', Closed = 0, Head = [], Started = 0, Firefighting = 0,
      Fixed = 0, Severity = [], Service = [], RootCause = [], Regions = [],
      Recovery = [], Reporter = [], Detected = 0, Escalated = 0, Metrics = [],
      IssueType = ''Incident'', Environment = [], Application = [], BusinessProcess = [],
      Score = 0\<rparr>"

text \<open>A raw issue decoded from an answer without a \<^verbatim>\<open>fields\<close> object: the pointer is nil.\<close>

definition inci_4 :: Issue where
  "inci_4 = \<lparr>Issue_ID = ''10004'', Issue_Key = ''INCI-4'', Issue_Fields = None\<rparr>"

text \<open>Decimal numerals, to number the issues of a large result set.\<close>

function decimal :: "nat \<Rightarrow> string" where
  "decimal n =
     (if n < 10 then [''0123456789'' ! n]
      else decimal (n div 10) @ [''0123456789'' ! (n mod 10)])"
  by pat_completeness auto
termination
  by (relation "measure id") auto

definition numbered_issue :: "nat \<Rightarrow> Issue" where
  "numbered_issue n =
     \<lparr>Issue_ID = decimal (20000 + n), Issue_Key = ''INCI-'' @ decimal (100 + n),
      Issue_Fields = Some
        \<lparr>Fields_Assignee = None, Fields_Reporter = None,
         Fields_Created = 63844880400000000000, Fields_Updated = 63844884000000000000,
         Fields_Resolutiondate = 0,
         Fields_Type = \<lparr>IssueType_Name = ''Incident''\<rparr>,
         Fields_Unknowns = Map.empty\<rparr>\<rparr>"

text \<open>Two clients as \<^verbatim>\<open>NewJiraClient\<close> makes them, without and with an extra filter clause.\<close>

definition inci_client :: JiraClient where
  "inci_client =
     \<lparr>baseURL = ''https://jira.example.com'', username = ''aim'', projectKey = ''INCI'',
      queryFilter = [], refreshInterval = 300, lastRefresh = 0, issueCache = Map.empty\<rparr>"

definition filtered_client :: JiraClient where
  "filtered_client =
     \<lparr>baseURL = ''https://jira.example.com'', username = ''aim'', projectKey = ''INCI'',
      queryFilter = ''priority = High'', refreshInterval = 300, lastRefresh = 0,
      issueCache = Map.empty\<rparr>"



definition server_down :: Search where
  "server_down jql options = Inl ''connection refused''"

text \<open>
  A server that holds a result set and puts at most two records on a page, whatever page
  size the request asks for.
\<close>

definition two_per_page :: "Issue list \<Rightarrow> Search" where
  "two_per_page xs jql options = Inr (take 2 (drop (StartAt options) xs))"

text \<open>A result set of 2001 issues: two full pages of 1000 and a page of one.\<close>

definition many_issues :: "Issue list" where
  "many_issues = map numbered_issue [0..<2001]"

text \<open>A result set of five issues.\<close>

definition five_issues :: "Issue list" where
  "five_issues =
     [numbered_issue 0, numbered_issue 1, numbered_issue 2, numbered_issue 3, numbered_issue 4]"

text \<open>
  The client after a first cycle that retrieved issue 20000 and committed at 10:00:00, and
  after a second cycle that retrieved issue 20001 and committed at 10:05:00.
\<close>

definition after_first_cycle :: JiraClient where
  "after_first_cycle =
     (cache_all [numbered_issue 0] inci_client)\<lparr>lastRefresh := 63844884000000000000\<rparr>"

definition after_second_cycle :: JiraClient where
  "after_second_cycle =
     (cache_all [numbered_issue 1] after_first_cycle)\<lparr>lastRefresh := 63844884300000000000\<rparr>"


section \<open>Field Mapper: what each block assigns\<close>

text \<open>
  Each guarded block changes one field of the record, or two for the creation and update
  times, and leaves it as it was when its guard fails.
\<close>

lemma set_Assignee_upd:
  "set_Assignee f c = c\<lparr>Assignee := or_else (Assignee c) (map_option User_Name (Fields_Assignee f))\<rparr>"
  by (simp add: set_Assignee_def or_else_def split: option.split)

lemma set_Reporter_upd:
  "set_Reporter f c = c\<lparr>Reporter := or_else (Reporter c) (map_option User_Name (Fields_Reporter f))\<rparr>"
  by (simp add: set_Reporter_def or_else_def split: option.split)

lemma set_Resolved_upd:
  "set_Resolved f c = c\<lparr>Resolved := (if Fields_Resolutiondate f = 0 then Resolved c else Fields_Resolutiondate f)\<rparr>"
  by (simp add: set_Resolved_def IsZero_def)

lemma set_IssueType_upd:
  "set_IssueType f c = c\<lparr>IssueType := (if IssueType_Name (Fields_Type f) = [] then IssueType c else IssueType_Name (Fields_Type f))\<rparr>"
  by (simp add: set_IssueType_def)

lemma set_Closed_upd:
  "set_Closed P f c = c\<lparr>Closed :=
     or_else (Closed c) (timestamp_value P (Fields_Unknowns f ''customfield_20908''))\<rparr>"
  by (simp add: set_Closed_def timestamp_value_def or_else_def split: option.split json.split)

lemma set_Started_upd:
  "set_Started P f c = c\<lparr>Started :=
     or_else (Started c) (timestamp_value P (Fields_Unknowns f ''customfield_18117''))\<rparr>"
  by (simp add: set_Started_def timestamp_value_def or_else_def split: option.split json.split)

lemma set_Firefighting_upd:
  "set_Firefighting P f c = c\<lparr>Firefighting :=
     or_else (Firefighting c) (timestamp_value P (Fields_Unknowns f ''customfield_21200''))\<rparr>"
  by (simp add: set_Firefighting_def timestamp_value_def or_else_def split: option.split json.split)

lemma set_Head_upd:
  "set_Head f c = c\<lparr>Head :=
     or_else (Head c) (property_value ''name'' (Fields_Unknowns f ''customfield_22501''))\<rparr>"
  by (simp add: set_Head_def property_value_def or_else_def split: option.split json.split)

lemma set_Severity_upd:
  "set_Severity f c = c\<lparr>Severity :=
     or_else (Severity c) (property_value ''value'' (Fields_Unknowns f ''customfield_18119''))\<rparr>"
  by (simp add: set_Severity_def property_value_def or_else_def split: option.split json.split)

lemma set_Service_upd:
  "set_Service f c = c\<lparr>Service :=
     or_else (Service c) (first_string_value (Fields_Unknowns f ''customfield_33803''))\<rparr>"
  by (simp add: set_Service_def first_string_value_def or_else_def split: option.split json.split)

lemma set_RootCause_upd:
  "set_RootCause f c = c\<lparr>RootCause :=
     or_else (RootCause c) (first_string_value (Fields_Unknowns f ''customfield_37238''))\<rparr>"
  by (simp add: set_RootCause_def first_string_value_def or_else_def split: option.split json.split)

lemmas set_upds = set_Assignee_upd set_Reporter_upd set_Resolved_upd set_IssueType_upd
  set_Closed_upd set_Started_upd set_Firefighting_upd set_Head_upd set_Severity_upd
  set_Service_upd set_RootCause_upd set_Created_Updated_def

text \<open>The record one iteration builds, field by field.\<close>

lemma convert_issue_closed_form:
  assumes "Issue_Fields issue = Some f"
  shows "convert_issue P issue = Inr
     \<lparr>Key = Issue_Key issue,
      Created = Fields_Created f,
      Updated = Fields_Updated f,
      Resolved = Fields_Resolutiondate f,
      Assignee = or_else [] (map_option User_Name (Fields_Assignee f)),
      Closed = or_else 0 (timestamp_value P (Fields_Unknowns f ''customfield_20908'')),
      Head = or_else [] (property_value ''name'' (Fields_Unknowns f ''customfield_22501'')),
      Started = or_else 0 (timestamp_value P (Fields_Unknowns f ''customfield_18117'')),
      Firefighting = or_else 0 (timestamp_value P (Fields_Unknowns f ''customfield_21200'')),
      Fixed = 0,
      Severity = or_else [] (property_value ''value'' (Fields_Unknowns f ''customfield_18119'')),
      Service = or_else [] (first_string_value (Fields_Unknowns f ''customfield_33803'')),
      RootCause = or_else [] (first_string_value (Fields_Unknowns f ''customfield_37238'')),
      Regions = [], Recovery = [],
      Reporter = or_else [] (map_option User_Name (Fields_Reporter f)),
      Detected = 0, Escalated = 0, Metrics = [],
      IssueType = IssueType_Name (Fields_Type f),
      Environment = [], Application = [], BusinessProcess = [], Score = 0\<rparr>"
  using assms
  by (simp add: convert_issue_def set_upds new_JiraIssue_def)

text \<open>The loop over the batch succeeds exactly when every iteration does, pairing inputs and outputs in order.\<close>

lemma convert_loop_Inr:
  "convert_loop P issues acc = Inr outs \<longleftrightarrow>
     (\<exists>new. outs = acc @ new \<and> list_all2 (\<lambda>i out. convert_issue P i = Inr out) issues new)"
proof (induction issues arbitrary: acc)
  case Nil
  then show ?case by auto
next
  case (Cons issue issues)
  show ?case
  proof (cases "convert_issue P issue")
    case (Inl p)
    then show ?thesis by (auto simp: list_all2_Cons1)
  next
    case (Inr c)
    then show ?thesis by (auto simp: Cons.IH list_all2_Cons1)
  qed
qed

lemma ConvertToCustomIssues_Inr:
  "ConvertToCustomIssues P j issues = (Inr (outs, err), j') \<longleftrightarrow>
     err = None \<and> j' = j \<and> list_all2 (\<lambda>i out. convert_issue P i = Inr out) issues outs"
proof (cases "convert_loop P issues []")
  case (Inl p)
  then show ?thesis
    using convert_loop_Inr [of P issues "[]" outs] by (auto simp: ConvertToCustomIssues_def)
next
  case (Inr cs)
  then show ?thesis
    using convert_loop_Inr [of P issues "[]" outs] convert_loop_Inr [of P issues "[]" cs]
    by (auto simp: ConvertToCustomIssues_def)
qed

lemma convert_all_present:
  assumes "\<forall>i \<in> set issues. Issue_Fields i \<noteq> None"
  shows "\<exists>outs. list_all2 (\<lambda>i out. convert_issue P i = Inr out) issues outs"
  using assms
proof (induction issues)
  case Nil
  then show ?case by simp
next
  case (Cons i issues)
  then obtain outs where outs: "list_all2 (\<lambda>i out. convert_issue P i = Inr out) issues outs"
    by auto
  from Cons.prems obtain f where "Issue_Fields i = Some f" by auto
  then obtain out where "convert_issue P i = Inr out"
    by (simp add: convert_issue_def)
  with outs show ?case by (auto simp: list_all2_Cons1)
qed

text \<open>The conversions of the example issues.\<close>

lemma convert_inci_1:
  "convert_issue P inci_1 = Inr normalized_inci_1"
  by (simp add: inci_1_def inci_1_fields_def normalized_inci_1_def convert_issue_def set_upds new_JiraIssue_def
        timestamp_value_def property_value_def first_string_value_def or_else_def)

lemma convert_inci_2:
  "convert_issue sample_Parse inci_2 = Inr normalized_inci_2"
  by (simp add: inci_2_def inci_2_fields_def normalized_inci_2_def convert_issue_def set_upds new_JiraIssue_def
        timestamp_value_def property_value_def first_string_value_def or_else_def
        sample_Parse_def timestamp_layout_def jdoe_def asmith_def)

lemma convert_inci_3:
  "convert_issue sample_Parse inci_3 = Inr normalized_inci_3"
  by (simp add: inci_3_def inci_3_fields_def normalized_inci_3_def convert_issue_def set_upds new_JiraIssue_def
        timestamp_value_def property_value_def first_string_value_def or_else_def
        sample_Parse_def timestamp_layout_def jdoe_def)

lemma convert_inci_4: "convert_issue P inci_4 = Inl NilPointerDereference"
  by (simp add: convert_issue_def inci_4_def)

section \<open>Field Mapper: properties\<close>

text \<open>
  C10. For every raw issue the mapper converts, the normalized issue has the fields Fixed,
  Regions, Recovery, Detected, Escalated, Metrics, Environment, Application,
  BusinessProcess and Score at their zero values: the record type declares them, and no
  block of the mapper assigns them.
\<close>

theorem unmapped_fields_stay_zero:
  assumes "ConvertToCustomIssues P j issues = (Inr (outs, err), j')"
    and "out \<in> set outs"
  shows "Fixed out = 0 \<and> Regions out = [] \<and> Recovery out = [] \<and> Detected out = 0 \<and>
         Escalated out = 0 \<and> Metrics out = [] \<and> Environment out = [] \<and>
         Application out = [] \<and> BusinessProcess out = [] \<and> Score out = 0"
proof -
  from assms(1) have all: "list_all2 (\<lambda>i out. convert_issue P i = Inr out) issues outs"
    by (simp add: ConvertToCustomIssues_Inr)
  from assms(2) obtain k where k: "k < length outs" "outs ! k = out"
    by (auto simp: in_set_conv_nth)
  from all k have conv: "convert_issue P (issues ! k) = Inr out"
    by (auto dest: list_all2_nthD2)
  then obtain f where f: "Issue_Fields (issues ! k) = Some f"
    by (cases "Issue_Fields (issues ! k)") (simp_all add: convert_issue_def)
  from conv show ?thesis
    unfolding convert_issue_closed_form [OF f] by auto
qed

theorem unmapped_fields_stay_zero_witness:
  "ConvertToCustomIssues sample_Parse inci_client [inci_1, inci_2] =
     (Inr ([normalized_inci_1, normalized_inci_2], None), inci_client) \<and>
   normalized_inci_2 \<in> set [normalized_inci_1, normalized_inci_2] \<and>
   Fixed normalized_inci_2 = 0 \<and> Regions normalized_inci_2 = [] \<and>
   Recovery normalized_inci_2 = [] \<and> Detected normalized_inci_2 = 0 \<and>
   Escalated normalized_inci_2 = 0 \<and> Metrics normalized_inci_2 = [] \<and>
   Environment normalized_inci_2 = [] \<and> Application normalized_inci_2 = [] \<and>
   BusinessProcess normalized_inci_2 = [] \<and> Score normalized_inci_2 = 0"
proof -
  have run: "ConvertToCustomIssues sample_Parse inci_client [inci_1, inci_2] =
     (Inr ([normalized_inci_1, normalized_inci_2], None), inci_client)"
    by (simp add: ConvertToCustomIssues_def convert_inci_1 convert_inci_2)
  have mem: "normalized_inci_2 \<in> set [normalized_inci_1, normalized_inci_2]"
    by simp
  show ?thesis
    using run mem unmapped_fields_stay_zero [OF run mem] by blast
qed

text \<open>
  What a successful batch conversion says about the record at one position: it is the
  conversion of the raw issue at that position, and of nothing else.
\<close>

lemma ConvertToCustomIssues_nth:
  assumes "ConvertToCustomIssues P j issues = (Inr (outs, err), j')"
    and "k < length issues"
    and "Issue_Fields (issues ! k) = Some f"
  shows "convert_issue P (issues ! k) = Inr (outs ! k)"
    and "length outs = length issues"
proof -
  from assms(1) have all: "list_all2 (\<lambda>i out. convert_issue P i = Inr out) issues outs"
    by (simp add: ConvertToCustomIssues_Inr)
  then show "length outs = length issues"
    by (simp add: list_all2_lengthD)
  from list_all2_nthD [OF all assms(2)]
  show "convert_issue P (issues ! k) = Inr (outs ! k)" .
qed

text \<open>The fields of a converted record, read off the record of \<open>convert_issue_closed_form\<close>.\<close>

lemma convert_issue_fields:
  assumes "convert_issue P issue = Inr out" and "Issue_Fields issue = Some f"
  shows "Key out = Issue_Key issue"
    and "Created out = Fields_Created f"
    and "Updated out = Fields_Updated f"
    and "Resolved out = Fields_Resolutiondate f"
    and "IssueType out = IssueType_Name (Fields_Type f)"
    and "Assignee out = or_else [] (map_option User_Name (Fields_Assignee f))"
    and "Reporter out = or_else [] (map_option User_Name (Fields_Reporter f))"
    and "Closed out = or_else 0 (timestamp_value P (Fields_Unknowns f ''customfield_20908''))"
    and "Head out = or_else [] (property_value ''name'' (Fields_Unknowns f ''customfield_22501''))"
    and "Started out = or_else 0 (timestamp_value P (Fields_Unknowns f ''customfield_18117''))"
    and "Firefighting out = or_else 0 (timestamp_value P (Fields_Unknowns f ''customfield_21200''))"
    and "Severity out = or_else [] (property_value ''value'' (Fields_Unknowns f ''customfield_18119''))"
    and "Service out = or_else [] (first_string_value (Fields_Unknowns f ''customfield_33803''))"
    and "RootCause out = or_else [] (first_string_value (Fields_Unknowns f ''customfield_37238''))"
proof -
  let ?r = "projr (convert_issue P issue)"
  have out: "out = ?r" using assms(1) by simp
  show "Key out = Issue_Key issue"
    and "Created out = Fields_Created f"
    and "Updated out = Fields_Updated f"
    and "Resolved out = Fields_Resolutiondate f"
    and "IssueType out = IssueType_Name (Fields_Type f)"
    and "Assignee out = or_else [] (map_option User_Name (Fields_Assignee f))"
    and "Reporter out = or_else [] (map_option User_Name (Fields_Reporter f))"
    and "Closed out = or_else 0 (timestamp_value P (Fields_Unknowns f ''customfield_20908''))"
    and "Head out = or_else [] (property_value ''name'' (Fields_Unknowns f ''customfield_22501''))"
    and "Started out = or_else 0 (timestamp_value P (Fields_Unknowns f ''customfield_18117''))"
    and "Firefighting out = or_else 0 (timestamp_value P (Fields_Unknowns f ''customfield_21200''))"
    and "Severity out = or_else [] (property_value ''value'' (Fields_Unknowns f ''customfield_18119''))"
    and "Service out = or_else [] (first_string_value (Fields_Unknowns f ''customfield_33803''))"
    and "RootCause out = or_else [] (first_string_value (Fields_Unknowns f ''customfield_37238''))"
    unfolding out convert_issue_closed_form [OF assms(2)] by simp_all
qed

text \<open>
  C5 (as amended). For every raw issue the mapper converts, the normalized assignee and
  reporter are the \<^verbatim>\<open>Name\<close> property (the login name, not the display name) of the
  corresponding identity object when it is present, and empty when it is absent.
\<close>

theorem assignee_reporter_are_login_names:
  assumes "ConvertToCustomIssues P j issues = (Inr (outs, err), j')"
    and "k < length issues"
    and "Issue_Fields (issues ! k) = Some f"
  shows "Assignee (outs ! k) = (case Fields_Assignee f of Some u \<Rightarrow> User_Name u | None \<Rightarrow> []) \<and>
         Reporter (outs ! k) = (case Fields_Reporter f of Some u \<Rightarrow> User_Name u | None \<Rightarrow> [])"
proof -
  have "convert_issue P (issues ! k) = Inr (outs ! k)"
    using assms by (rule ConvertToCustomIssues_nth)
  from convert_issue_fields(6,7) [OF this assms(3)] show ?thesis
    by (simp add: or_else_def split: option.splits)
qed

theorem assignee_reporter_are_login_names_witness:
  "ConvertToCustomIssues sample_Parse inci_client [inci_2, inci_1] =
     (Inr ([normalized_inci_2, normalized_inci_1], None), inci_client) \<and>
   (0::nat) < length [inci_2, inci_1] \<and>
   Issue_Fields ([inci_2, inci_1] ! 0) = Some inci_2_fields \<and>
   Fields_Assignee inci_2_fields = Some jdoe \<and> Fields_Reporter inci_2_fields = Some asmith \<and>
   Assignee normalized_inci_2 = User_Name jdoe \<and> Reporter normalized_inci_2 = User_Name asmith"
proof -
  have run: "ConvertToCustomIssues sample_Parse inci_client [inci_2, inci_1] =
     (Inr ([normalized_inci_2, normalized_inci_1], None), inci_client)"
    by (simp add: ConvertToCustomIssues_def convert_inci_1 convert_inci_2)
  have k: "(0::nat) < length [inci_2, inci_1]" by simp
  have f: "Issue_Fields ([inci_2, inci_1] ! 0) = Some inci_2_fields"
    by (simp add: inci_2_def)
  have who: "Fields_Assignee inci_2_fields = Some jdoe" "Fields_Reporter inci_2_fields = Some asmith"
    by (simp_all add: inci_2_fields_def)
  show ?thesis
    using run k f who assignee_reporter_are_login_names [OF run k f] by simp
qed

text \<open>
  The claim as first stated, with the display name, fails: the identity object of the
  assignee of INCI-2 has the login name jdoe and the display name John Doe, and the
  normalized assignee is jdoe.
\<close>

theorem assignee_is_not_display_name:
  "ConvertToCustomIssues sample_Parse inci_client [inci_2] =
     (Inr ([normalized_inci_2], None), inci_client) \<and>
   Issue_Fields inci_2 = Some inci_2_fields \<and>
   Fields_Assignee inci_2_fields = Some jdoe \<and>
   User_DisplayName jdoe = ''John Doe'' \<and>
   Assignee normalized_inci_2 = ''jdoe'' \<and>
   Assignee normalized_inci_2 \<noteq> User_DisplayName jdoe"
proof -
  have "ConvertToCustomIssues sample_Parse inci_client [inci_2] =
     (Inr ([normalized_inci_2], None), inci_client)"
    by (simp add: ConvertToCustomIssues_def convert_inci_2)
  moreover have "Issue_Fields inci_2 = Some inci_2_fields"
    by (simp add: inci_2_def)
  moreover have "Fields_Assignee inci_2_fields = Some jdoe"
    by (simp add: inci_2_fields_def)
  moreover have "User_DisplayName jdoe = ''John Doe''"
    by (simp add: jdoe_def)
  moreover have "Assignee normalized_inci_2 = ''jdoe''"
    by (simp add: normalized_inci_2_def)
  ultimately show ?thesis by simp
qed

text \<open>
  C6. The mapper reproduces the table of custom fields: closed, started and firefighting are
  the parse, with the fixed layout, of the string in customfield_20908, customfield_18117
  and customfield_21200; head is the string under \<^verbatim>\<open>name\<close> of the object in
  customfield_22501; severity is the string under \<^verbatim>\<open>value\<close> of the object in
  customfield_18119; service and root cause are the string at the head of the array in
  customfield_33803 and customfield_37238. In particular the raw issue INCI-1 of the
  scenario (zero resolution date, severity \<^verbatim>\<open>{"value":"SEV2"}\<close>, service
  \<^verbatim>\<open>["payments"]\<close>) maps to a record with key INCI-1, no resolution time, severity SEV2
  and service payments.
\<close>

theorem custom_field_table:
  "(\<forall>outs err j' k f.
      ConvertToCustomIssues P j issues = (Inr (outs, err), j') \<and> k < length issues \<and>
      Issue_Fields (issues ! k) = Some f \<longrightarrow>
        (\<forall>val t. Fields_Unknowns f ''customfield_20908'' = Some (JStr val) \<and> val \<noteq> [] \<and>
                  P ''2006-01-02T15:04:05.999-0700'' val = Some t \<longrightarrow> Closed (outs ! k) = t) \<and>
        (\<forall>val name. Fields_Unknowns f ''customfield_22501'' = Some (JObj val) \<and>
                  map_of val ''name'' = Some (JStr name) \<longrightarrow> Head (outs ! k) = name) \<and>
        (\<forall>val t. Fields_Unknowns f ''customfield_18117'' = Some (JStr val) \<and> val \<noteq> [] \<and>
                  P ''2006-01-02T15:04:05.999-0700'' val = Some t \<longrightarrow> Started (outs ! k) = t) \<and>
        (\<forall>val t. Fields_Unknowns f ''customfield_21200'' = Some (JStr val) \<and> val \<noteq> [] \<and>
                  P ''2006-01-02T15:04:05.999-0700'' val = Some t \<longrightarrow> Firefighting (outs ! k) = t) \<and>
        (\<forall>val v. Fields_Unknowns f ''customfield_18119'' = Some (JObj val) \<and>
                  map_of val ''value'' = Some (JStr v) \<longrightarrow> Severity (outs ! k) = v) \<and>
        (\<forall>s rest. Fields_Unknowns f ''customfield_33803'' = Some (JArr (JStr s # rest)) \<longrightarrow>
                  Service (outs ! k) = s) \<and>
        (\<forall>s rest. Fields_Unknowns f ''customfield_37238'' = Some (JArr (JStr s # rest)) \<longrightarrow>
                  RootCause (outs ! k) = s)) \<and>
   ConvertToCustomIssues P j [inci_1] = (Inr ([normalized_inci_1], None), j) \<and>
   Issue_Key inci_1 = ''INCI-1'' \<and>
   Fields_Resolutiondate inci_1_fields = 0 \<and>
   Fields_Unknowns inci_1_fields ''customfield_18119'' = Some (JObj [(''value'', JStr ''SEV2'')]) \<and>
   Fields_Unknowns inci_1_fields ''customfield_33803'' = Some (JArr [JStr ''payments'']) \<and>
   Key normalized_inci_1 = ''INCI-1'' \<and> Resolved normalized_inci_1 = 0 \<and>
   Severity normalized_inci_1 = ''SEV2'' \<and> Service normalized_inci_1 = ''payments''"
proof -
  have table: "Closed out = t" if "convert_issue P issue = Inr out" "Issue_Fields issue = Some f"
    "Fields_Unknowns f ''customfield_20908'' = Some (JStr val)" "val \<noteq> []"
    "P ''2006-01-02T15:04:05.999-0700'' val = Some t" for out issue f val t
    using that convert_issue_fields(8) [OF that(1,2)]
    by (simp add: timestamp_value_def timestamp_layout_def or_else_def)
  have table2: "Started out = t" if "convert_issue P issue = Inr out" "Issue_Fields issue = Some f"
    "Fields_Unknowns f ''customfield_18117'' = Some (JStr val)" "val \<noteq> []"
    "P ''2006-01-02T15:04:05.999-0700'' val = Some t" for out issue f val t
    using that convert_issue_fields(10) [OF that(1,2)]
    by (simp add: timestamp_value_def timestamp_layout_def or_else_def)
  have table3: "Firefighting out = t" if "convert_issue P issue = Inr out" "Issue_Fields issue = Some f"
    "Fields_Unknowns f ''customfield_21200'' = Some (JStr val)" "val \<noteq> []"
    "P ''2006-01-02T15:04:05.999-0700'' val = Some t" for out issue f val t
    using that convert_issue_fields(11) [OF that(1,2)]
    by (simp add: timestamp_value_def timestamp_layout_def or_else_def)
  have table4: "Head out = name" if "convert_issue P issue = Inr out" "Issue_Fields issue = Some f"
    "Fields_Unknowns f ''customfield_22501'' = Some (JObj val)"
    "map_of val ''name'' = Some (JStr name)" for out issue f val name
    using that convert_issue_fields(9) [OF that(1,2)]
    by (simp add: property_value_def or_else_def)
  have table5: "Severity out = v" if "convert_issue P issue = Inr out" "Issue_Fields issue = Some f"
    "Fields_Unknowns f ''customfield_18119'' = Some (JObj val)"
    "map_of val ''value'' = Some (JStr v)" for out issue f val v
    using that convert_issue_fields(12) [OF that(1,2)]
    by (simp add: property_value_def or_else_def)
  have table6: "Service out = s" if "convert_issue P issue = Inr out" "Issue_Fields issue = Some f"
    "Fields_Unknowns f ''customfield_33803'' = Some (JArr (JStr s # rest))" for out issue f s rest
    using that convert_issue_fields(13) [OF that(1,2)]
    by (simp add: first_string_value_def or_else_def)
  have table7: "RootCause out = s" if "convert_issue P issue = Inr out" "Issue_Fields issue = Some f"
    "Fields_Unknowns f ''customfield_37238'' = Some (JArr (JStr s # rest))" for out issue f s rest
    using that convert_issue_fields(14) [OF that(1,2)]
    by (simp add: first_string_value_def or_else_def)
  have general: "\<forall>outs err j' k f.
      ConvertToCustomIssues P j issues = (Inr (outs, err), j') \<and> k < length issues \<and>
      Issue_Fields (issues ! k) = Some f \<longrightarrow>
        (\<forall>val t. Fields_Unknowns f ''customfield_20908'' = Some (JStr val) \<and> val \<noteq> [] \<and>
                  P ''2006-01-02T15:04:05.999-0700'' val = Some t \<longrightarrow> Closed (outs ! k) = t) \<and>
        (\<forall>val name. Fields_Unknowns f ''customfield_22501'' = Some (JObj val) \<and>
                  map_of val ''name'' = Some (JStr name) \<longrightarrow> Head (outs ! k) = name) \<and>
        (\<forall>val t. Fields_Unknowns f ''customfield_18117'' = Some (JStr val) \<and> val \<noteq> [] \<and>
                  P ''2006-01-02T15:04:05.999-0700'' val = Some t \<longrightarrow> Started (outs ! k) = t) \<and>
        (\<forall>val t. Fields_Unknowns f ''customfield_21200'' = Some (JStr val) \<and> val \<noteq> [] \<and>
                  P ''2006-01-02T15:04:05.999-0700'' val = Some t \<longrightarrow> Firefighting (outs ! k) = t) \<and>
        (\<forall>val v. Fields_Unknowns f ''customfield_18119'' = Some (JObj val) \<and>
                  map_of val ''value'' = Some (JStr v) \<longrightarrow> Severity (outs ! k) = v) \<and>
        (\<forall>s rest. Fields_Unknowns f ''customfield_33803'' = Some (JArr (JStr s # rest)) \<longrightarrow>
                  Service (outs ! k) = s) \<and>
        (\<forall>s rest. Fields_Unknowns f ''customfield_37238'' = Some (JArr (JStr s # rest)) \<longrightarrow>
                  RootCause (outs ! k) = s)"
  proof (intro allI impI, elim conjE)
    fix outs err j' k f
    assume run: "ConvertToCustomIssues P j issues = (Inr (outs, err), j')"
      and k: "k < length issues" and f: "Issue_Fields (issues ! k) = Some f"
    have out: "convert_issue P (issues ! k) = Inr (outs ! k)"
      using run k f by (rule ConvertToCustomIssues_nth)
    show "(\<forall>val t. Fields_Unknowns f ''customfield_20908'' = Some (JStr val) \<and> val \<noteq> [] \<and>
                  P ''2006-01-02T15:04:05.999-0700'' val = Some t \<longrightarrow> Closed (outs ! k) = t) \<and>
        (\<forall>val name. Fields_Unknowns f ''customfield_22501'' = Some (JObj val) \<and>
                  map_of val ''name'' = Some (JStr name) \<longrightarrow> Head (outs ! k) = name) \<and>
        (\<forall>val t. Fields_Unknowns f ''customfield_18117'' = Some (JStr val) \<and> val \<noteq> [] \<and>
                  P ''2006-01-02T15:04:05.999-0700'' val = Some t \<longrightarrow> Started (outs ! k) = t) \<and>
        (\<forall>val t. Fields_Unknowns f ''customfield_21200'' = Some (JStr val) \<and> val \<noteq> [] \<and>
                  P ''2006-01-02T15:04:05.999-0700'' val = Some t \<longrightarrow> Firefighting (outs ! k) = t) \<and>
        (\<forall>val v. Fields_Unknowns f ''customfield_18119'' = Some (JObj val) \<and>
                  map_of val ''value'' = Some (JStr v) \<longrightarrow> Severity (outs ! k) = v) \<and>
        (\<forall>s rest. Fields_Unknowns f ''customfield_33803'' = Some (JArr (JStr s # rest)) \<longrightarrow>
                  Service (outs ! k) = s) \<and>
        (\<forall>s rest. Fields_Unknowns f ''customfield_37238'' = Some (JArr (JStr s # rest)) \<longrightarrow>
                  RootCause (outs ! k) = s)"
      using table [OF out f] table2 [OF out f] table3 [OF out f] table4 [OF out f]
        table5 [OF out f] table6 [OF out f] table7 [OF out f]
      by blast
  qed
  have scenario: "ConvertToCustomIssues P j [inci_1] = (Inr ([normalized_inci_1], None), j)"
    by (simp add: ConvertToCustomIssues_def convert_inci_1)
  have given: "Issue_Key inci_1 = ''INCI-1'' \<and>
      Fields_Resolutiondate inci_1_fields = 0 \<and>
      Fields_Unknowns inci_1_fields ''customfield_18119'' = Some (JObj [(''value'', JStr ''SEV2'')]) \<and>
      Fields_Unknowns inci_1_fields ''customfield_33803'' = Some (JArr [JStr ''payments''])"
    by (simp add: inci_1_def inci_1_fields_def)
  have result: "Key normalized_inci_1 = ''INCI-1'' \<and> Resolved normalized_inci_1 = 0 \<and>
      Severity normalized_inci_1 = ''SEV2'' \<and> Service normalized_inci_1 = ''payments''"
    by (simp add: normalized_inci_1_def)
  from general scenario given result show ?thesis by blast
qed

theorem custom_field_table_witness:
  "ConvertToCustomIssues sample_Parse inci_client [inci_2] =
     (Inr ([normalized_inci_2], None), inci_client) \<and>
   (0::nat) < length [inci_2] \<and> Issue_Fields ([inci_2] ! 0) = Some inci_2_fields \<and>
   Fields_Unknowns inci_2_fields ''customfield_20908'' = Some (JStr ''2024-03-01T12:30:00.000+0000'') \<and>
   sample_Parse ''2006-01-02T15:04:05.999-0700'' ''2024-03-01T12:30:00.000+0000'' =
     Some 63844893000000000000 \<and>
   Closed ([normalized_inci_2] ! 0) = 63844893000000000000 \<and>
   Fields_Unknowns inci_2_fields ''customfield_22501'' = Some (JObj [(''name'', JStr ''platform'')]) \<and>
   Head ([normalized_inci_2] ! 0) = ''platform'' \<and>
   Fields_Unknowns inci_2_fields ''customfield_18117'' = Some (JStr ''2024-03-01T10:00:00.000+0000'') \<and>
   sample_Parse ''2006-01-02T15:04:05.999-0700'' ''2024-03-01T10:00:00.000+0000'' =
     Some 63844884000000000000 \<and>
   Started ([normalized_inci_2] ! 0) = 63844884000000000000 \<and>
   Fields_Unknowns inci_2_fields ''customfield_21200'' = Some (JStr ''2024-03-01T10:05:00.000+0000'') \<and>
   sample_Parse ''2006-01-02T15:04:05.999-0700'' ''2024-03-01T10:05:00.000+0000'' =
     Some 63844884300000000000 \<and>
   Firefighting ([normalized_inci_2] ! 0) = 63844884300000000000 \<and>
   Fields_Unknowns inci_2_fields ''customfield_18119'' = Some (JObj [(''value'', JStr ''SEV1'')]) \<and>
   Severity ([normalized_inci_2] ! 0) = ''SEV1'' \<and>
   Fields_Unknowns inci_2_fields ''customfield_33803'' =
     Some (JArr [JStr ''checkout'', JStr ''payments'']) \<and>
   Service ([normalized_inci_2] ! 0) = ''checkout'' \<and>
   Fields_Unknowns inci_2_fields ''customfield_37238'' = Some (JArr [JStr ''deployment'']) \<and>
   RootCause ([normalized_inci_2] ! 0) = ''deployment''"
proof -
  have run: "ConvertToCustomIssues sample_Parse inci_client [inci_2] =
     (Inr ([normalized_inci_2], None), inci_client)"
    by (simp add: ConvertToCustomIssues_def convert_inci_2)
  have k: "(0::nat) < length [inci_2]" by simp
  have f: "Issue_Fields ([inci_2] ! 0) = Some inci_2_fields" by (simp add: inci_2_def)
  have c1: "Fields_Unknowns inci_2_fields ''customfield_20908'' =
              Some (JStr ''2024-03-01T12:30:00.000+0000'')"
    and c2: "Fields_Unknowns inci_2_fields ''customfield_22501'' =
              Some (JObj [(''name'', JStr ''platform'')])"
    and c3: "Fields_Unknowns inci_2_fields ''customfield_18117'' =
              Some (JStr ''2024-03-01T10:00:00.000+0000'')"
    and c4: "Fields_Unknowns inci_2_fields ''customfield_21200'' =
              Some (JStr ''2024-03-01T10:05:00.000+0000'')"
    and c5: "Fields_Unknowns inci_2_fields ''customfield_18119'' =
              Some (JObj [(''value'', JStr ''SEV1'')])"
    and c6: "Fields_Unknowns inci_2_fields ''customfield_33803'' =
              Some (JArr [JStr ''checkout'', JStr ''payments''])"
    and c7: "Fields_Unknowns inci_2_fields ''customfield_37238'' =
              Some (JArr [JStr ''deployment''])"
    by (simp_all add: inci_2_fields_def)
  have p1: "sample_Parse ''2006-01-02T15:04:05.999-0700'' ''2024-03-01T12:30:00.000+0000'' =
              Some 63844893000000000000"
    and p3: "sample_Parse ''2006-01-02T15:04:05.999-0700'' ''2024-03-01T10:00:00.000+0000'' =
              Some 63844884000000000000"
    and p4: "sample_Parse ''2006-01-02T15:04:05.999-0700'' ''2024-03-01T10:05:00.000+0000'' =
              Some 63844884300000000000"
    by (simp_all add: sample_Parse_def)
  note table = custom_field_table [of sample_Parse inci_client "[inci_2]", THEN conjunct1,
      rule_format, of "[normalized_inci_2]" None inci_client 0 inci_2_fields,
      OF conjI [OF run conjI [OF k f]]]
  have n1: "''2024-03-01T12:30:00.000+0000'' \<noteq> []"
    and n3: "''2024-03-01T10:00:00.000+0000'' \<noteq> []"
    and n4: "''2024-03-01T10:05:00.000+0000'' \<noteq> []"
    by simp_all
  have m2: "map_of [(''name'', JStr ''platform'')] ''name'' = Some (JStr ''platform'')"
    and m5: "map_of [(''value'', JStr ''SEV1'')] ''value'' = Some (JStr ''SEV1'')"
    by simp_all
  from table have r1: "Closed ([normalized_inci_2] ! 0) = 63844893000000000000"
    using c1 n1 p1 by blast
  from table have r2: "Head ([normalized_inci_2] ! 0) = ''platform''"
    using c2 m2 by blast
  from table have r3: "Started ([normalized_inci_2] ! 0) = 63844884000000000000"
    using c3 n3 p3 by blast
  from table have r4: "Firefighting ([normalized_inci_2] ! 0) = 63844884300000000000"
    using c4 n4 p4 by blast
  from table have r5: "Severity ([normalized_inci_2] ! 0) = ''SEV1''"
    using c5 m5 by blast
  from table have r6: "Service ([normalized_inci_2] ! 0) = ''checkout''"
    using c6 by blast
  from table have r7: "RootCause ([normalized_inci_2] ! 0) = ''deployment''"
    using c7 by blast
  from run k f c1 p1 r1 c2 r2 c3 p3 r3 c4 p4 r4 c5 r5 c6 r6 c7 r7 show ?thesis
    by (intro conjI)
qed

text \<open>When a custom field yields no value: it is missing, has another shape, or does not parse.\<close>

lemma timestamp_value_None:
  assumes "\<forall>val. v = Some (JStr val) \<longrightarrow> val = [] \<or> P ''2006-01-02T15:04:05.999-0700'' val = None"
  shows "timestamp_value P v = None"
  using assms
  by (auto simp: timestamp_value_def timestamp_layout_def split: option.splits json.splits)

lemma property_value_None:
  assumes "\<forall>val s. v = Some (JObj val) \<longrightarrow> map_of val k \<noteq> Some (JStr s)"
  shows "property_value k v = None"
  using assms
  by (auto simp: property_value_def split: option.splits json.splits)

lemma first_string_value_None:
  assumes "\<forall>s rest. v \<noteq> Some (JArr (JStr s # rest))"
  shows "first_string_value v = None"
proof (cases v)
  case None
  then show ?thesis by (simp add: first_string_value_def)
next
  case (Some x)
  show ?thesis
  proof (cases x)
    case (JArr val)
    show ?thesis
    proof (cases val)
      case Nil
      with Some JArr show ?thesis by (simp add: first_string_value_def)
    next
      case (Cons y rest)
      with assms Some JArr have "\<forall>s. y \<noteq> JStr s" by auto
      with Some JArr Cons show ?thesis
        by (cases y) (simp_all add: first_string_value_def)
    qed
  qed (simp_all add: first_string_value_def Some)
qed

text \<open>Replacing the value of one custom field changes the one field of the record it maps to.\<close>

lemma with_custom_field_Fields:
  "Issue_Fields issue = Some f \<Longrightarrow>
   Issue_Fields (with_custom_field k v issue) =
     Some (f\<lparr>Fields_Unknowns := (Fields_Unknowns f)(k := v)\<rparr>)"
  by (simp add: with_custom_field_def)

lemma with_custom_field_Key: "Issue_Key (with_custom_field k v issue) = Issue_Key issue"
  by (simp add: with_custom_field_def)

lemma custom_field_frame:
  assumes "convert_issue P issue = Inr out" and "Issue_Fields issue = Some f"
  shows "convert_issue P (with_custom_field ''customfield_20908'' v issue) =
           Inr (out\<lparr>Closed := or_else 0 (timestamp_value P v)\<rparr>)"
    and "convert_issue P (with_custom_field ''customfield_22501'' v issue) =
           Inr (out\<lparr>Head := or_else [] (property_value ''name'' v)\<rparr>)"
    and "convert_issue P (with_custom_field ''customfield_18117'' v issue) =
           Inr (out\<lparr>Started := or_else 0 (timestamp_value P v)\<rparr>)"
    and "convert_issue P (with_custom_field ''customfield_21200'' v issue) =
           Inr (out\<lparr>Firefighting := or_else 0 (timestamp_value P v)\<rparr>)"
    and "convert_issue P (with_custom_field ''customfield_18119'' v issue) =
           Inr (out\<lparr>Severity := or_else [] (property_value ''value'' v)\<rparr>)"
    and "convert_issue P (with_custom_field ''customfield_33803'' v issue) =
           Inr (out\<lparr>Service := or_else [] (first_string_value v)\<rparr>)"
    and "convert_issue P (with_custom_field ''customfield_37238'' v issue) =
           Inr (out\<lparr>RootCause := or_else [] (first_string_value v)\<rparr>)"
proof -
  have out: "out = projr (convert_issue P issue)" using assms(1) by simp
  show "convert_issue P (with_custom_field ''customfield_20908'' v issue) =
           Inr (out\<lparr>Closed := or_else 0 (timestamp_value P v)\<rparr>)"
    and "convert_issue P (with_custom_field ''customfield_22501'' v issue) =
           Inr (out\<lparr>Head := or_else [] (property_value ''name'' v)\<rparr>)"
    and "convert_issue P (with_custom_field ''customfield_18117'' v issue) =
           Inr (out\<lparr>Started := or_else 0 (timestamp_value P v)\<rparr>)"
    and "convert_issue P (with_custom_field ''customfield_21200'' v issue) =
           Inr (out\<lparr>Firefighting := or_else 0 (timestamp_value P v)\<rparr>)"
    and "convert_issue P (with_custom_field ''customfield_18119'' v issue) =
           Inr (out\<lparr>Severity := or_else [] (property_value ''value'' v)\<rparr>)"
    and "convert_issue P (with_custom_field ''customfield_33803'' v issue) =
           Inr (out\<lparr>Service := or_else [] (first_string_value v)\<rparr>)"
    and "convert_issue P (with_custom_field ''customfield_37238'' v issue) =
           Inr (out\<lparr>RootCause := or_else [] (first_string_value v)\<rparr>)"
    unfolding out convert_issue_closed_form [OF assms(2)]
      convert_issue_closed_form [OF with_custom_field_Fields [OF assms(2)]]
      with_custom_field_Key
    by simp_all
qed

text \<open>
  C7 (as amended). For every batch in which each raw issue carries its \<^verbatim>\<open>Fields\<close> object, the
  mapper returns the nil error and exactly one record per raw issue, the record at a
  position being the conversion of the raw issue at that position alone. A custom field
  whose value is absent, has another shape than the expected one, or (for a timestamp) is
  empty or fails to parse leaves the field it maps to at its zero value; and replacing the
  value of one custom field by any other changes that one field of the record and nothing
  else.
\<close>

theorem mapper_degrades_per_field:
  assumes "\<forall>i \<in> set issues. Issue_Fields i \<noteq> None"
  shows "\<exists>outs. ConvertToCustomIssues P j issues = (Inr (outs, None), j) \<and>
           length outs = length issues \<and>
           (\<forall>k f. k < length issues \<and> Issue_Fields (issues ! k) = Some f \<longrightarrow>
          convert_issue P (issues ! k) = Inr (outs ! k) \<and>
          ((\<forall>val. Fields_Unknowns f ''customfield_20908'' = Some (JStr val) \<longrightarrow>
                  val = [] \<or> P ''2006-01-02T15:04:05.999-0700'' val = None) \<longrightarrow>
             Closed (outs ! k) = 0) \<and>
          ((\<forall>val s. Fields_Unknowns f ''customfield_22501'' = Some (JObj val) \<longrightarrow>
                  map_of val ''name'' \<noteq> Some (JStr s)) \<longrightarrow>
             Head (outs ! k) = []) \<and>
          ((\<forall>val. Fields_Unknowns f ''customfield_18117'' = Some (JStr val) \<longrightarrow>
                  val = [] \<or> P ''2006-01-02T15:04:05.999-0700'' val = None) \<longrightarrow>
             Started (outs ! k) = 0) \<and>
          ((\<forall>val. Fields_Unknowns f ''customfield_21200'' = Some (JStr val) \<longrightarrow>
                  val = [] \<or> P ''2006-01-02T15:04:05.999-0700'' val = None) \<longrightarrow>
             Firefighting (outs ! k) = 0) \<and>
          ((\<forall>val s. Fields_Unknowns f ''customfield_18119'' = Some (JObj val) \<longrightarrow>
                  map_of val ''value'' \<noteq> Some (JStr s)) \<longrightarrow>
             Severity (outs ! k) = []) \<and>
          ((\<forall>s rest. Fields_Unknowns f ''customfield_33803'' \<noteq> Some (JArr (JStr s # rest))) \<longrightarrow>
             Service (outs ! k) = []) \<and>
          ((\<forall>s rest. Fields_Unknowns f ''customfield_37238'' \<noteq> Some (JArr (JStr s # rest))) \<longrightarrow>
             RootCause (outs ! k) = []) \<and>
          (\<forall>v. \<exists>t. convert_issue P (with_custom_field ''customfield_20908'' v (issues ! k)) =
                  Inr ((outs ! k)\<lparr>Closed := t\<rparr>)) \<and>
          (\<forall>v. \<exists>s. convert_issue P (with_custom_field ''customfield_22501'' v (issues ! k)) =
                  Inr ((outs ! k)\<lparr>Head := s\<rparr>)) \<and>
          (\<forall>v. \<exists>t. convert_issue P (with_custom_field ''customfield_18117'' v (issues ! k)) =
                  Inr ((outs ! k)\<lparr>Started := t\<rparr>)) \<and>
          (\<forall>v. \<exists>t. convert_issue P (with_custom_field ''customfield_21200'' v (issues ! k)) =
                  Inr ((outs ! k)\<lparr>Firefighting := t\<rparr>)) \<and>
          (\<forall>v. \<exists>s. convert_issue P (with_custom_field ''customfield_18119'' v (issues ! k)) =
                  Inr ((outs ! k)\<lparr>Severity := s\<rparr>)) \<and>
          (\<forall>v. \<exists>s. convert_issue P (with_custom_field ''customfield_33803'' v (issues ! k)) =
                  Inr ((outs ! k)\<lparr>Service := s\<rparr>)) \<and>
          (\<forall>v. \<exists>s. convert_issue P (with_custom_field ''customfield_37238'' v (issues ! k)) =
                  Inr ((outs ! k)\<lparr>RootCause := s\<rparr>)))"
proof -
  from convert_all_present [OF assms] obtain outs
    where all: "list_all2 (\<lambda>i out. convert_issue P i = Inr out) issues outs" ..
  then have run: "ConvertToCustomIssues P j issues = (Inr (outs, None), j)"
    by (simp add: ConvertToCustomIssues_Inr)
  have len: "length outs = length issues"
    using all by (simp add: list_all2_lengthD)
  have each: "convert_issue P (issues ! k) = Inr (outs ! k) \<and>
          ((\<forall>val. Fields_Unknowns f ''customfield_20908'' = Some (JStr val) \<longrightarrow>
                  val = [] \<or> P ''2006-01-02T15:04:05.999-0700'' val = None) \<longrightarrow>
             Closed (outs ! k) = 0) \<and>
          ((\<forall>val s. Fields_Unknowns f ''customfield_22501'' = Some (JObj val) \<longrightarrow>
                  map_of val ''name'' \<noteq> Some (JStr s)) \<longrightarrow>
             Head (outs ! k) = []) \<and>
          ((\<forall>val. Fields_Unknowns f ''customfield_18117'' = Some (JStr val) \<longrightarrow>
                  val = [] \<or> P ''2006-01-02T15:04:05.999-0700'' val = None) \<longrightarrow>
             Started (outs ! k) = 0) \<and>
          ((\<forall>val. Fields_Unknowns f ''customfield_21200'' = Some (JStr val) \<longrightarrow>
                  val = [] \<or> P ''2006-01-02T15:04:05.999-0700'' val = None) \<longrightarrow>
             Firefighting (outs ! k) = 0) \<and>
          ((\<forall>val s. Fields_Unknowns f ''customfield_18119'' = Some (JObj val) \<longrightarrow>
                  map_of val ''value'' \<noteq> Some (JStr s)) \<longrightarrow>
             Severity (outs ! k) = []) \<and>
          ((\<forall>s rest. Fields_Unknowns f ''customfield_33803'' \<noteq> Some (JArr (JStr s # rest))) \<longrightarrow>
             Service (outs ! k) = []) \<and>
          ((\<forall>s rest. Fields_Unknowns f ''customfield_37238'' \<noteq> Some (JArr (JStr s # rest))) \<longrightarrow>
             RootCause (outs ! k) = []) \<and>
          (\<forall>v. \<exists>t. convert_issue P (with_custom_field ''customfield_20908'' v (issues ! k)) =
                  Inr ((outs ! k)\<lparr>Closed := t\<rparr>)) \<and>
          (\<forall>v. \<exists>s. convert_issue P (with_custom_field ''customfield_22501'' v (issues ! k)) =
                  Inr ((outs ! k)\<lparr>Head := s\<rparr>)) \<and>
          (\<forall>v. \<exists>t. convert_issue P (with_custom_field ''customfield_18117'' v (issues ! k)) =
                  Inr ((outs ! k)\<lparr>Started := t\<rparr>)) \<and>
          (\<forall>v. \<exists>t. convert_issue P (with_custom_field ''customfield_21200'' v (issues ! k)) =
                  Inr ((outs ! k)\<lparr>Firefighting := t\<rparr>)) \<and>
          (\<forall>v. \<exists>s. convert_issue P (with_custom_field ''customfield_18119'' v (issues ! k)) =
                  Inr ((outs ! k)\<lparr>Severity := s\<rparr>)) \<and>
          (\<forall>v. \<exists>s. convert_issue P (with_custom_field ''customfield_33803'' v (issues ! k)) =
                  Inr ((outs ! k)\<lparr>Service := s\<rparr>)) \<and>
          (\<forall>v. \<exists>s. convert_issue P (with_custom_field ''customfield_37238'' v (issues ! k)) =
                  Inr ((outs ! k)\<lparr>RootCause := s\<rparr>))"
    if k: "k < length issues" and f: "Issue_Fields (issues ! k) = Some f" for k f
  proof -
    have out: "convert_issue P (issues ! k) = Inr (outs ! k)"
      using list_all2_nthD [OF all k] .
    note fields = convert_issue_fields [OF out f]
    note frame = custom_field_frame [OF out f]
    have z1: "Closed (outs ! k) = 0"
      if "\<forall>val. Fields_Unknowns f ''customfield_20908'' = Some (JStr val) \<longrightarrow>
                  val = [] \<or> P ''2006-01-02T15:04:05.999-0700'' val = None"
      using timestamp_value_None [of "Fields_Unknowns f ''customfield_20908''" P, OF that] fields(8) by (simp add: or_else_def)
    have z2: "Head (outs ! k) = []"
      if "\<forall>val s. Fields_Unknowns f ''customfield_22501'' = Some (JObj val) \<longrightarrow>
                  map_of val ''name'' \<noteq> Some (JStr s)"
      using property_value_None [of "Fields_Unknowns f ''customfield_22501''" "''name''", OF that] fields(9) by (simp add: or_else_def)
    have z3: "Started (outs ! k) = 0"
      if "\<forall>val. Fields_Unknowns f ''customfield_18117'' = Some (JStr val) \<longrightarrow>
                  val = [] \<or> P ''2006-01-02T15:04:05.999-0700'' val = None"
      using timestamp_value_None [of "Fields_Unknowns f ''customfield_18117''" P, OF that] fields(10) by (simp add: or_else_def)
    have z4: "Firefighting (outs ! k) = 0"
      if "\<forall>val. Fields_Unknowns f ''customfield_21200'' = Some (JStr val) \<longrightarrow>
                  val = [] \<or> P ''2006-01-02T15:04:05.999-0700'' val = None"
      using timestamp_value_None [of "Fields_Unknowns f ''customfield_21200''" P, OF that] fields(11) by (simp add: or_else_def)
    have z5: "Severity (outs ! k) = []"
      if "\<forall>val s. Fields_Unknowns f ''customfield_18119'' = Some (JObj val) \<longrightarrow>
                  map_of val ''value'' \<noteq> Some (JStr s)"
      using property_value_None [of "Fields_Unknowns f ''customfield_18119''" "''value''", OF that] fields(12) by (simp add: or_else_def)
    have z6: "Service (outs ! k) = []"
      if "\<forall>s rest. Fields_Unknowns f ''customfield_33803'' \<noteq> Some (JArr (JStr s # rest))"
      using first_string_value_None [of "Fields_Unknowns f ''customfield_33803''", OF that] fields(13) by (simp add: or_else_def)
    have z7: "RootCause (outs ! k) = []"
      if "\<forall>s rest. Fields_Unknowns f ''customfield_37238'' \<noteq> Some (JArr (JStr s # rest))"
      using first_string_value_None [of "Fields_Unknowns f ''customfield_37238''", OF that] fields(14) by (simp add: or_else_def)
    show ?thesis
      using out z1 z2 z3 z4 z5 z6 z7 frame by (intro conjI impI allI exI) assumption+
  qed
  from run len each show ?thesis by blast
qed

theorem mapper_degrades_per_field_witness:
  "Issue_Fields inci_3 = Some inci_3_fields \<and> Issue_Fields inci_1 = Some inci_1_fields \<and>
   ConvertToCustomIssues sample_Parse inci_client [inci_3, inci_1] =
     (Inr ([normalized_inci_3, normalized_inci_1], None), inci_client) \<and>
   Issue_Fields ([inci_3, inci_1] ! 0) = Some inci_3_fields \<and>
   Fields_Unknowns inci_3_fields ''customfield_20908'' = Some (JStr ''yesterday'') \<and>
   sample_Parse ''2006-01-02T15:04:05.999-0700'' ''yesterday'' = None \<and>
   Closed ([normalized_inci_3, normalized_inci_1] ! 0) = 0 \<and>
   Fields_Unknowns inci_3_fields ''customfield_22501'' = Some (JStr ''platform'') \<and>
   Head ([normalized_inci_3, normalized_inci_1] ! 0) = [] \<and>
   Fields_Unknowns inci_3_fields ''customfield_18117'' = Some (JStr []) \<and>
   Started ([normalized_inci_3, normalized_inci_1] ! 0) = 0 \<and>
   Fields_Unknowns inci_3_fields ''customfield_21200'' = Some (JNum 5) \<and>
   Firefighting ([normalized_inci_3, normalized_inci_1] ! 0) = 0 \<and>
   Fields_Unknowns inci_3_fields ''customfield_18119'' = Some (JObj [(''id'', JStr ''10'')]) \<and>
   Severity ([normalized_inci_3, normalized_inci_1] ! 0) = [] \<and>
   Fields_Unknowns inci_3_fields ''customfield_33803'' = Some (JArr []) \<and>
   Service ([normalized_inci_3, normalized_inci_1] ! 0) = [] \<and>
   Fields_Unknowns inci_3_fields ''customfield_37238'' = Some (JArr [JNull]) \<and>
   RootCause ([normalized_inci_3, normalized_inci_1] ! 0) = [] \<and>
   Assignee ([normalized_inci_3, normalized_inci_1] ! 0) = ''jdoe''"
proof -
  let ?outs = "[normalized_inci_3, normalized_inci_1]"
  have f3: "Issue_Fields inci_3 = Some inci_3_fields"
    and f1: "Issue_Fields inci_1 = Some inci_1_fields"
    by (simp_all add: inci_3_def inci_1_def)
  have present: "\<forall>i \<in> set [inci_3, inci_1]. Issue_Fields i \<noteq> None"
    by (simp add: f3 f1)
  have run: "ConvertToCustomIssues sample_Parse inci_client [inci_3, inci_1] =
     (Inr (?outs, None), inci_client)"
    by (simp add: ConvertToCustomIssues_def convert_inci_1 convert_inci_3)
  have k: "(0::nat) < length [inci_3, inci_1]" by simp
  have f: "Issue_Fields ([inci_3, inci_1] ! 0) = Some inci_3_fields"
    by (simp add: inci_3_def)
  from mapper_degrades_per_field [OF present, of sample_Parse inci_client]
  obtain outs where outs:
    "ConvertToCustomIssues sample_Parse inci_client [inci_3, inci_1] =
       (Inr (outs, None), inci_client)"
    and each: "\<forall>k f. k < length [inci_3, inci_1] \<and> Issue_Fields ([inci_3, inci_1] ! k) = Some f \<longrightarrow>
          convert_issue sample_Parse ([inci_3, inci_1] ! k) = Inr (outs ! k) \<and>
          ((\<forall>val. Fields_Unknowns f ''customfield_20908'' = Some (JStr val) \<longrightarrow>
                  val = [] \<or> sample_Parse ''2006-01-02T15:04:05.999-0700'' val = None) \<longrightarrow>
             Closed (outs ! k) = 0) \<and>
          ((\<forall>val s. Fields_Unknowns f ''customfield_22501'' = Some (JObj val) \<longrightarrow>
                  map_of val ''name'' \<noteq> Some (JStr s)) \<longrightarrow>
             Head (outs ! k) = []) \<and>
          ((\<forall>val. Fields_Unknowns f ''customfield_18117'' = Some (JStr val) \<longrightarrow>
                  val = [] \<or> sample_Parse ''2006-01-02T15:04:05.999-0700'' val = None) \<longrightarrow>
             Started (outs ! k) = 0) \<and>
          ((\<forall>val. Fields_Unknowns f ''customfield_21200'' = Some (JStr val) \<longrightarrow>
                  val = [] \<or> sample_Parse ''2006-01-02T15:04:05.999-0700'' val = None) \<longrightarrow>
             Firefighting (outs ! k) = 0) \<and>
          ((\<forall>val s. Fields_Unknowns f ''customfield_18119'' = Some (JObj val) \<longrightarrow>
                  map_of val ''value'' \<noteq> Some (JStr s)) \<longrightarrow>
             Severity (outs ! k) = []) \<and>
          ((\<forall>s rest. Fields_Unknowns f ''customfield_33803'' \<noteq> Some (JArr (JStr s # rest))) \<longrightarrow>
             Service (outs ! k) = []) \<and>
          ((\<forall>s rest. Fields_Unknowns f ''customfield_37238'' \<noteq> Some (JArr (JStr s # rest))) \<longrightarrow>
             RootCause (outs ! k) = []) \<and>
          (\<forall>v. \<exists>t. convert_issue sample_Parse (with_custom_field ''customfield_20908'' v ([inci_3, inci_1] ! k)) =
                  Inr ((outs ! k)\<lparr>Closed := t\<rparr>)) \<and>
          (\<forall>v. \<exists>s. convert_issue sample_Parse (with_custom_field ''customfield_22501'' v ([inci_3, inci_1] ! k)) =
                  Inr ((outs ! k)\<lparr>Head := s\<rparr>)) \<and>
          (\<forall>v. \<exists>t. convert_issue sample_Parse (with_custom_field ''customfield_18117'' v ([inci_3, inci_1] ! k)) =
                  Inr ((outs ! k)\<lparr>Started := t\<rparr>)) \<and>
          (\<forall>v. \<exists>t. convert_issue sample_Parse (with_custom_field ''customfield_21200'' v ([inci_3, inci_1] ! k)) =
                  Inr ((outs ! k)\<lparr>Firefighting := t\<rparr>)) \<and>
          (\<forall>v. \<exists>s. convert_issue sample_Parse (with_custom_field ''customfield_18119'' v ([inci_3, inci_1] ! k)) =
                  Inr ((outs ! k)\<lparr>Severity := s\<rparr>)) \<and>
          (\<forall>v. \<exists>s. convert_issue sample_Parse (with_custom_field ''customfield_33803'' v ([inci_3, inci_1] ! k)) =
                  Inr ((outs ! k)\<lparr>Service := s\<rparr>)) \<and>
          (\<forall>v. \<exists>s. convert_issue sample_Parse (with_custom_field ''customfield_37238'' v ([inci_3, inci_1] ! k)) =
                  Inr ((outs ! k)\<lparr>RootCause := s\<rparr>))"
    by (elim exE conjE)
  from outs run have same: "outs = ?outs" by simp
  have c1: "Fields_Unknowns inci_3_fields ''customfield_20908'' = Some (JStr ''yesterday'')"
    and c2: "Fields_Unknowns inci_3_fields ''customfield_22501'' = Some (JStr ''platform'')"
    and c3: "Fields_Unknowns inci_3_fields ''customfield_18117'' = Some (JStr [])"
    and c4: "Fields_Unknowns inci_3_fields ''customfield_21200'' = Some (JNum 5)"
    and c5: "Fields_Unknowns inci_3_fields ''customfield_18119'' = Some (JObj [(''id'', JStr ''10'')])"
    and c6: "Fields_Unknowns inci_3_fields ''customfield_33803'' = Some (JArr [])"
    and c7: "Fields_Unknowns inci_3_fields ''customfield_37238'' = Some (JArr [JNull])"
    by (simp_all add: inci_3_fields_def)
  have p1: "sample_Parse ''2006-01-02T15:04:05.999-0700'' ''yesterday'' = None"
    by (simp add: sample_Parse_def)
  note here = each [rule_format, OF conjI [OF k f], unfolded same]
  have r1: "Closed (?outs ! 0) = 0" using here [THEN conjunct2, THEN conjunct1] c1 p1 by simp
  have r2: "Head (?outs ! 0) = []" using here [THEN conjunct2, THEN conjunct2, THEN conjunct1] c2 by simp
  have r3: "Started (?outs ! 0) = 0" using here [THEN conjunct2, THEN conjunct2, THEN conjunct2, THEN conjunct1] c3 by simp
  have r4: "Firefighting (?outs ! 0) = 0" using here [THEN conjunct2, THEN conjunct2, THEN conjunct2, THEN conjunct2, THEN conjunct1] c4 by simp
  have r5: "Severity (?outs ! 0) = []" using here [THEN conjunct2, THEN conjunct2, THEN conjunct2, THEN conjunct2, THEN conjunct2, THEN conjunct1] c5 by simp
  have r6: "Service (?outs ! 0) = []" using here [THEN conjunct2, THEN conjunct2, THEN conjunct2, THEN conjunct2, THEN conjunct2, THEN conjunct2, THEN conjunct1] c6 by simp
  have r7: "RootCause (?outs ! 0) = []" using here [THEN conjunct2, THEN conjunct2, THEN conjunct2, THEN conjunct2, THEN conjunct2, THEN conjunct2, THEN conjunct2, THEN conjunct1] c7 by simp
  have r8: "Assignee (?outs ! 0) = ''jdoe''" by (simp add: normalized_inci_3_def)
  from f3 f1 run f c1 p1 r1 c2 r2 c3 r3 c4 r4 c5 r5 c6 r6 c7 r7 r8 show ?thesis
    by (intro conjI)
qed

text \<open>
  The claim as first stated, for every batch, fails: INCI-4 has no \<^verbatim>\<open>Fields\<close> object, and
  a batch that holds it ends in a nil pointer dereference instead of a list of records.
\<close>

theorem mapper_panics_on_nil_fields:
  "Issue_Fields inci_4 = None \<and>
   ConvertToCustomIssues sample_Parse inci_client [inci_1, inci_4] =
     (Inl NilPointerDereference, inci_client)"
  by (simp add: ConvertToCustomIssues_def convert_inci_1 convert_inci_4) (simp add: inci_4_def)

text \<open>
  C8. The mapper is a function of the batch alone: its result is the same from every client
  state, it returns the client state as it got it, and applying it a second time, after the
  first, to the same batch gives the same result again.
\<close>

theorem mapper_is_pure:
  "ConvertToCustomIssues P j issues = (fst (ConvertToCustomIssues P j' issues), j) \<and>
   ConvertToCustomIssues P (snd (ConvertToCustomIssues P j issues)) issues =
     ConvertToCustomIssues P j issues"
  by (simp add: ConvertToCustomIssues_def split: sum.splits)

section \<open>Query Engine: the pagination loop\<close>

lemma append_chunk_eq: "append_chunk chunk (acc, j) = (acc @ chunk, cache_all chunk j)"
  by (induction chunk arbitrary: acc j) (simp_all add: cache_all_def)

lemma cache_all_append: "cache_all (xs @ ys) j = cache_all ys (cache_all xs j)"
  by (simp add: cache_all_def)

lemma cache_all_Nil: "cache_all [] j = j"
  by (simp add: cache_all_def)

lemma paginates_nonempty: "paginates srv jql m s rs \<Longrightarrow> rs \<noteq> []"
  by (cases rs) simp_all

lemma fetched_Cons: "fetched srv jql (r # rs) = page_of srv jql r @ fetched srv jql rs"
  by (simp add: fetched_def)

lemma fetched_single: "fetched srv jql [r] = page_of srv jql r"
  by (simp add: fetched_def)

text \<open>
  The three ways one iteration of the loop body can go, for any function \<open>f\<close> in the place
  of the recursive call.
\<close>

lemma body_failed:
  assumes "(let options = \<lparr>StartAt = s, MaxResults = m, Fields = search_fields\<rparr> in
      case srv jql options of
        Inl err \<Rightarrow> Some (Inl (''error searching issues: '' @ err), j, rq @ [options])
      | Inr chunk \<Rightarrow>
          if length chunk = 0 then Some (Inr acc, j, rq @ [options])
          else
            (case append_chunk chunk (acc, j) of
               (allIssues', j') \<Rightarrow>
                 if length chunk < m then Some (Inr allIssues', j', rq @ [options])
                 else f srv jql m (s + length chunk) allIssues' j'
                        (rq @ [options]))) = Some y"
    and "srv jql (page_request s m) = Inl err"
  shows "y = (Inl (''error searching issues: '' @ err), j, rq @ [page_request s m])"
  using assms by (simp add: Let_def page_request_def)

lemma body_last:
  assumes "(let options = \<lparr>StartAt = s, MaxResults = m, Fields = search_fields\<rparr> in
      case srv jql options of
        Inl err \<Rightarrow> Some (Inl (''error searching issues: '' @ err), j, rq @ [options])
      | Inr chunk \<Rightarrow>
          if length chunk = 0 then Some (Inr acc, j, rq @ [options])
          else
            (case append_chunk chunk (acc, j) of
               (allIssues', j') \<Rightarrow>
                 if length chunk < m then Some (Inr allIssues', j', rq @ [options])
                 else f srv jql m (s + length chunk) allIssues' j'
                        (rq @ [options]))) = Some y"
    and "srv jql (page_request s m) = Inr chunk" and "length chunk = 0 \<or> length chunk < m"
  shows "y = (Inr (acc @ chunk), cache_all chunk j, rq @ [page_request s m])"
  using assms
  by (auto simp add: Let_def page_request_def append_chunk_eq cache_all_Nil split: if_splits)

lemma body_next:
  assumes "(let options = \<lparr>StartAt = s, MaxResults = m, Fields = search_fields\<rparr> in
      case srv jql options of
        Inl err \<Rightarrow> Some (Inl (''error searching issues: '' @ err), j, rq @ [options])
      | Inr chunk \<Rightarrow>
          if length chunk = 0 then Some (Inr acc, j, rq @ [options])
          else
            (case append_chunk chunk (acc, j) of
               (allIssues', j') \<Rightarrow>
                 if length chunk < m then Some (Inr allIssues', j', rq @ [options])
                 else f srv jql m (s + length chunk) allIssues' j'
                        (rq @ [options]))) = Some y"
    and "srv jql (page_request s m) = Inr chunk" and "\<not> (length chunk = 0 \<or> length chunk < m)"
  shows "f srv jql m (s + length chunk) (acc @ chunk) (cache_all chunk j) (rq @ [page_request s m]) = Some y"
  using assms by (simp add: Let_def page_request_def append_chunk_eq)

text \<open>
  Whatever the server does, a loop that returns has sent requests that follow the protocol,
  has written to the cache every issue of every page it received, and returns either all of
  them after the issues it started with, or the error of the last request.
\<close>

lemma search_loop_sound:
  assumes "search_loop srv jql m s acc j rq = Some y"
  shows "\<exists>new. snd (snd y) = rq @ new \<and> paginates srv jql m s new \<and>
           fst (snd y) = cache_all (fetched srv jql new) j \<and>
           (case fst y of
              Inr issues \<Rightarrow> issues = acc @ fetched srv jql new \<and>
                            (\<exists>chunk. srv jql (last new) = Inr chunk)
            | Inl msg \<Rightarrow> \<exists>cause. srv jql (last new) = Inl cause \<and>
                            msg = ''error searching issues: '' @ cause)"
proof (rule search_loop.raw_induct [where P = "\<lambda>srv jql m s acc j rq y.
         \<exists>new. snd (snd y) = rq @ new \<and> paginates srv jql m s new \<and>
           fst (snd y) = cache_all (fetched srv jql new) j \<and>
           (case fst y of
              Inr issues \<Rightarrow> issues = acc @ fetched srv jql new \<and>
                            (\<exists>chunk. srv jql (last new) = Inr chunk)
            | Inl msg \<Rightarrow> \<exists>cause. srv jql (last new) = Inl cause \<and>
                            msg = ''error searching issues: '' @ cause)", OF _ assms], goal_cases)
  case (1 f srv jql m s acc j rq y)
  let ?r = "page_request s m"
  show ?case
  proof (cases "srv jql ?r")
    case (Inl err)
    have y: "y = (Inl (''error searching issues: '' @ err), j, rq @ [?r])"
      using 1(2) Inl by (rule body_failed)
    show ?thesis
      by (rule exI [of _ "[?r]"]) (simp add: y Inl fetched_single page_of_def cache_all_Nil)
  next
    case (Inr chunk)
    show ?thesis
    proof (cases "length chunk = 0 \<or> length chunk < m")
      case True
      have y: "y = (Inr (acc @ chunk), cache_all chunk j, rq @ [?r])"
        using 1(2) Inr True by (rule body_last)
      show ?thesis
        using True
        by (intro exI [of _ "[?r]"]) (simp add: y Inr fetched_single page_of_def)
    next
      case False
      have call:
        "f srv jql m (s + length chunk) (acc @ chunk) (cache_all chunk j) (rq @ [?r]) = Some y"
        using 1(2) Inr False by (rule body_next)
      from 1(1) [OF call] obtain new where new:
        "snd (snd y) = (rq @ [?r]) @ new" "paginates srv jql m (s + length chunk) new"
        "fst (snd y) = cache_all (fetched srv jql new) (cache_all chunk j)"
        "(case fst y of
              Inr issues \<Rightarrow> issues = (acc @ chunk) @ fetched srv jql new \<and>
                            (\<exists>chunk. srv jql (last new) = Inr chunk)
            | Inl msg \<Rightarrow> \<exists>cause. srv jql (last new) = Inl cause \<and>
                            msg = ''error searching issues: '' @ cause)"
        by (elim exE conjE)
      have ne: "new \<noteq> []" using new(2) by (rule paginates_nonempty)
      have pag: "paginates srv jql m s (?r # new)"
        using new(2) False Inr by simp
      have fet: "fetched srv jql (?r # new) = chunk @ fetched srv jql new"
        by (simp add: fetched_Cons page_of_def Inr)
      have lst: "last (?r # new) = last new" using ne by simp
      show ?thesis
        apply (rule exI [of _ "?r # new"])
        apply (simp only: fet lst)
        using new pag by (simp add: cache_all_append split: sum.splits)
    qed
  qed
qed

text \<open>One unfolding of the loop, with the inner loop over the page already run.\<close>

lemma search_loop_unfold:
  "search_loop srv jql m s acc j rq =
     (case srv jql (page_request s m) of
        Inl err \<Rightarrow> Some (Inl (''error searching issues: '' @ err), j, rq @ [page_request s m])
      | Inr chunk \<Rightarrow>
          if length chunk = 0 \<or> length chunk < m
          then Some (Inr (acc @ chunk), cache_all chunk j, rq @ [page_request s m])
          else search_loop srv jql m (s + length chunk) (acc @ chunk) (cache_all chunk j)
                 (rq @ [page_request s m]))"
  by (subst search_loop.simps)
     (auto simp add: Let_def page_request_def append_chunk_eq cache_all_Nil split: sum.splits)

text \<open>
  Against a server that answers every request with the slice of a fixed result set that the
  request asks for, the loop returns, with the whole set from the offset on, after one
  request per full page and one more.
\<close>

lemma search_loop_honest:
  assumes m: "0 < m"
    and honest: "\<And>s. srv jql (page_request s m) = Inr (take m (drop s xs))"
  shows "search_loop srv jql m s acc j rq =
           Some (Inr (acc @ drop s xs), cache_all (drop s xs) j,
                 rq @ map (\<lambda>k. page_request (s + k * m) m) [0..<(length xs - s) div m + 1])"
proof (induction "length xs - s" arbitrary: s acc j rq rule: less_induct)
  case less
  let ?chunk = "take m (drop s xs)"
  have srv: "srv jql (page_request s m) = Inr ?chunk"
    by (rule honest)
  show ?case
  proof (cases "length xs - s < m")
    case True
    then have chunk: "?chunk = drop s xs" by simp
    have stop: "length ?chunk = 0 \<or> length ?chunk < m" using True m by auto
    have one: "[0..<(length xs - s) div m + 1] = [0]" using True by simp
    have "search_loop srv jql m s acc j rq =
          Some (Inr (acc @ ?chunk), cache_all ?chunk j, rq @ [page_request s m])"
      by (subst search_loop_unfold) (simp only: srv sum.case stop if_True)
    then show ?thesis
      by (simp only: chunk one) simp
  next
    case False
    then have len: "length ?chunk = m" by simp
    have smaller: "length xs - (s + m) < length xs - s" using False m by arith
    have split_xs: "?chunk @ drop (s + m) xs = drop s xs"
      by (metis add.commute append_take_drop_id drop_drop)
    have pages: "(length xs - s) div m = Suc ((length xs - (s + m)) div m)"
      using False m le_div_geq [of m "length xs - s"] by simp
    have reqs: "map (\<lambda>k. page_request (s + k * m) m) [0..<(length xs - s) div m + 1] =
                page_request s m #
                map (\<lambda>k. page_request (s + m + k * m) m) [0..<(length xs - (s + m)) div m + 1]"
      by (simp only: pages Suc_eq_plus1 [symmetric] map_upt_Suc [of _ "Suc _"])
         (simp add: add.assoc)
    have "search_loop srv jql m s acc j rq =
          search_loop srv jql m (s + m) (acc @ ?chunk) (cache_all ?chunk j)
            (rq @ [page_request s m])"
      using m by (subst search_loop_unfold) (simp only: srv sum.case len, simp)
    also have "\<dots> = Some (Inr ((acc @ ?chunk) @ drop (s + m) xs),
                         cache_all (drop (s + m) xs) (cache_all ?chunk j),
                         (rq @ [page_request s m]) @
                         map (\<lambda>k. page_request (s + m + k * m) m)
                           [0..<(length xs - (s + m)) div m + 1])"
      by (rule less [OF smaller])
    also have "\<dots> = Some (Inr (acc @ drop s xs), cache_all (drop s xs) j,
                 rq @ map (\<lambda>k. page_request (s + k * m) m) [0..<(length xs - s) div m + 1])"
      by (simp only: reqs append_assoc split_xs cache_all_append [symmetric]) simp
    finally show ?thesis .
  qed
qed

lemma search_loop_list_server:
  assumes m: "0 < m"
  shows "search_loop (list_server xs) jql m s acc j rq =
           Some (Inr (acc @ drop s xs), cache_all (drop s xs) j,
                 rq @ map (\<lambda>k. page_request (s + k * m) m) [0..<(length xs - s) div m + 1])"
  by (rule search_loop_honest [OF m]) (simp add: list_server_def page_request_def)

text \<open>The whole retrieval against such a server, at the page size of \<^verbatim>\<open>GetIssues\<close>.\<close>

lemma GetIssues_list_server:
  "GetIssues (list_server xs) j =
     Some (Inr xs, cache_all xs j,
           map (\<lambda>k. page_request (k * 1000) 1000) [0..<length xs div 1000 + 1])"
  unfolding GetIssues_def
  using search_loop_list_server [of 1000 xs "build_jql j" 0 "[]" j "[]"] by simp

lemma GetIssues_one_page:
  assumes "length xs < 1000"
  shows "GetIssues (list_server xs) j = Some (Inr xs, cache_all xs j, [page_request 0 1000])"
  using assms by (simp add: GetIssues_list_server)

section \<open>Query Engine: properties\<close>

text \<open>
  C3. The claim says that a non-empty filter clause is ANDed into the filter expression of
  the query. The code appends it to the finished query, after the ORDER BY clause: for the
  project INCI and the clause \<^verbatim>\<open>priority = High\<close> the string sent is the one below.
  Without a filter clause the query is as the claim describes it.
\<close>

theorem filter_clause_follows_order_by:
  "build_jql filtered_client =
     ''project = INCI AND status not in (Cancelled,Rejected) AND created>=startOfYear(-1y) ORDER BY created DESC AND priority = High'' \<and>
   build_jql inci_client =
     ''project = INCI AND status not in (Cancelled,Rejected) AND created>=startOfYear(-1y) ORDER BY created DESC'' \<and>
   build_jql j =
     ''project = '' @ projectKey j @
     '' AND status not in (Cancelled,Rejected) AND created>=startOfYear(-1y)'' @
     '' ORDER BY created DESC'' @
     (if queryFilter j = [] then [] else '' AND '' @ queryFilter j)"
  by (simp add: build_jql_def filtered_client_def inci_client_def)

text \<open>
  C4 (as amended). The retrieval asks for pages of the fixed size 1000, the first at offset
  0; it advances the offset by the number of records of each page it receives, and stops
  exactly at the first page with fewer than 1000 records or with none (or at a failed
  request). What it returns is the concatenation of the pages in the order received. Against
  a server that answers each request with the slice of its result set that the request asks
  for, it returns the whole set in the server's order, after one request per full page of
  1000 and one more.
\<close>

theorem GetIssues_pagination:
  "(\<forall>res j' reqs. GetIssues srv j = Some (res, j', reqs) \<longrightarrow>
      paginates srv (build_jql j) 1000 0 reqs \<and>
      (\<forall>issues. res = Inr issues \<longrightarrow> issues = fetched srv (build_jql j) reqs)) \<and>
   ((\<forall>s. srv (build_jql j) (page_request s 1000) = Inr (take 1000 (drop s xs))) \<longrightarrow>
      GetIssues srv j =
        Some (Inr xs, cache_all xs j,
              map (\<lambda>k. page_request (k * 1000) 1000) [0..<length xs div 1000 + 1]))"
proof -
  have c1: "\<forall>res j' reqs. GetIssues srv j = Some (res, j', reqs) \<longrightarrow>
      paginates srv (build_jql j) 1000 0 reqs \<and>
      (\<forall>issues. res = Inr issues \<longrightarrow> issues = fetched srv (build_jql j) reqs)"
  proof (intro allI impI)
    fix res j' reqs
    assume "GetIssues srv j = Some (res, j', reqs)"
    from search_loop_sound [OF this [unfolded GetIssues_def]]
    show "paginates srv (build_jql j) 1000 0 reqs \<and>
      (\<forall>issues. res = Inr issues \<longrightarrow> issues = fetched srv (build_jql j) reqs)"
      by auto
  qed
  have c2: "GetIssues srv j =
        Some (Inr xs, cache_all xs j,
              map (\<lambda>k. page_request (k * 1000) 1000) [0..<length xs div 1000 + 1])"
    if "\<forall>s. srv (build_jql j) (page_request s 1000) = Inr (take 1000 (drop s xs))"
  proof -
    have "0 < (1000::nat)" by simp
    from search_loop_honest [OF this, of srv "build_jql j" xs 0 "[]" j "[]"] that
    show ?thesis unfolding GetIssues_def by simp
  qed
  from c1 c2 show ?thesis by blast
qed

theorem GetIssues_pagination_witness:
  "GetIssues (list_server many_issues) inci_client =
     Some (Inr many_issues, cache_all many_issues inci_client,
           [page_request 0 1000, page_request 1000 1000, page_request 2000 1000]) \<and>
   length many_issues = 2001 \<and>
   length [page_request 0 1000, page_request 1000 1000, page_request 2000 1000] = 3 \<and>
   length (page_of (list_server many_issues) (build_jql inci_client) (page_request 0 1000)) = 1000 \<and>
   length (page_of (list_server many_issues) (build_jql inci_client) (page_request 1000 1000)) = 1000 \<and>
   length (page_of (list_server many_issues) (build_jql inci_client) (page_request 2000 1000)) = 1 \<and>
   paginates (list_server many_issues) (build_jql inci_client) 1000 0
     [page_request 0 1000, page_request 1000 1000, page_request 2000 1000] \<and>
   many_issues =
     fetched (list_server many_issues) (build_jql inci_client)
       [page_request 0 1000, page_request 1000 1000, page_request 2000 1000]"
proof -
  let ?jql = "build_jql inci_client"
  let ?reqs = "[page_request 0 1000, page_request 1000 1000, page_request 2000 1000]"
  note inst = GetIssues_pagination [of "list_server many_issues" inci_client many_issues]
  have honest: "\<forall>s. list_server many_issues ?jql (page_request s 1000) =
                     Inr (take 1000 (drop s many_issues))"
    by (simp add: list_server_def page_request_def)
  have len: "length many_issues = 2001" by (simp add: many_issues_def)
  have reqs: "map (\<lambda>k. page_request (k * 1000) 1000) [0..<length many_issues div 1000 + 1] = ?reqs"
    by (simp add: len upt_rec)
  have run: "GetIssues (list_server many_issues) inci_client =
     Some (Inr many_issues, cache_all many_issues inci_client, ?reqs)"
    using inst [THEN conjunct2, THEN mp, OF honest] unfolding reqs .
  note sound = inst [THEN conjunct1, rule_format, OF run]
  have prot: "paginates (list_server many_issues) ?jql 1000 0 ?reqs"
    using sound by (rule conjunct1)
  have all: "many_issues = fetched (list_server many_issues) ?jql ?reqs"
    using sound [THEN conjunct2] by simp
  have three: "length ?reqs = 3" by simp
  have p1: "length (page_of (list_server many_issues) ?jql (page_request 0 1000)) = 1000"
    and p2: "length (page_of (list_server many_issues) ?jql (page_request 1000 1000)) = 1000"
    and p3: "length (page_of (list_server many_issues) ?jql (page_request 2000 1000)) = 1"
    by (simp_all add: page_of_def list_server_def page_request_def len)
  from run len three p1 p2 p3 prot all show ?thesis by (intro conjI)
qed

text \<open>
  The claim as first stated, with a page size of 2 and three requests for five issues,
  fails: the page size is the constant 1000 of \<^verbatim>\<open>GetIssues\<close>. A server that answers with
  the slice asked for returns the five issues on the first page, and the retrieval ends
  after that one request. A server that splits the five issues over pages of 2, 2 and 1
  returns a first page shorter than 1000, and the retrieval ends after that one request
  with two of the five issues.
\<close>

theorem page_size_is_fixed_at_1000:
  "GetIssues (list_server five_issues) inci_client =
     Some (Inr five_issues, cache_all five_issues inci_client, [page_request 0 1000]) \<and>
   MaxResults (page_request 0 1000) = 1000 \<and>
   length [page_request 0 1000] = 1 \<and>
   length five_issues = 5 \<and>
   two_per_page five_issues (build_jql inci_client) (page_request 0 1000) =
     Inr [numbered_issue 0, numbered_issue 1] \<and>
   two_per_page five_issues (build_jql inci_client) (page_request 2 1000) =
     Inr [numbered_issue 2, numbered_issue 3] \<and>
   two_per_page five_issues (build_jql inci_client) (page_request 4 1000) =
     Inr [numbered_issue 4] \<and>
   GetIssues (two_per_page five_issues) inci_client =
     Some (Inr [numbered_issue 0, numbered_issue 1],
           cache_all [numbered_issue 0, numbered_issue 1] inci_client, [page_request 0 1000]) \<and>
   length [numbered_issue 0, numbered_issue 1] = 2"
proof -
  have len: "length five_issues = 5" by (simp add: five_issues_def)
  have one: "GetIssues (list_server five_issues) inci_client =
     Some (Inr five_issues, cache_all five_issues inci_client, [page_request 0 1000])"
    by (rule GetIssues_one_page) (simp add: len)
  have size: "MaxResults (page_request 0 1000) = 1000"
    by (simp add: page_request_def)
  have pages: "two_per_page five_issues (build_jql inci_client) (page_request 0 1000) =
     Inr [numbered_issue 0, numbered_issue 1]"
    "two_per_page five_issues (build_jql inci_client) (page_request 2 1000) =
     Inr [numbered_issue 2, numbered_issue 3]"
    "two_per_page five_issues (build_jql inci_client) (page_request 4 1000) =
     Inr [numbered_issue 4]"
    by (simp_all add: two_per_page_def page_request_def five_issues_def)
  have cut: "GetIssues (two_per_page five_issues) inci_client =
     Some (Inr [numbered_issue 0, numbered_issue 1],
           cache_all [numbered_issue 0, numbered_issue 1] inci_client, [page_request 0 1000])"
    unfolding GetIssues_def
    by (subst search_loop_unfold) (simp add: pages(1))
  have few: "length [page_request 0 1000] = 1" "length [numbered_issue 0, numbered_issue 1] = 2"
    by simp_all
  from one size few(1) len pages cut few(2) show ?thesis by (intro conjI)
qed

section \<open>Snapshot Cache and Refresh Scheduler\<close>

text \<open>Writing issues to the cache changes the cache and nothing else of the client.\<close>

lemma cache_all_snoc: "cache_all (xs @ [x]) j = updateIssueCache (cache_all xs j) x"
  by (simp add: cache_all_def)

lemma cache_all_frame:
  "lastRefresh (cache_all xs j) = lastRefresh j"
  "projectKey (cache_all xs j) = projectKey j"
  "queryFilter (cache_all xs j) = queryFilter j"
  by (induction xs rule: rev_induct) (simp_all add: cache_all_Nil cache_all_snoc updateIssueCache_def)

lemma cache_all_miss:
  "k \<notin> Issue_ID ` set xs \<Longrightarrow> issueCache (cache_all xs j) k = issueCache j k"
  by (induction xs rule: rev_induct) (auto simp: cache_all_Nil cache_all_snoc updateIssueCache_def)

lemma cache_all_hit:
  "i \<in> set xs \<Longrightarrow>
   issueCache (cache_all xs j) (Issue_ID i) =
     Some (last (filter (\<lambda>x. Issue_ID x = Issue_ID i) xs))"
proof (induction xs rule: rev_induct)
  case Nil
  then show ?case by simp
next
  case (snoc x xs)
  show ?case
  proof (cases "Issue_ID x = Issue_ID i")
    case True
    then show ?thesis by (simp add: cache_all_snoc updateIssueCache_def)
  next
    case False
    with snoc.prems have "i \<in> set xs" by auto
    with snoc.IH False show ?thesis by (simp add: cache_all_snoc updateIssueCache_def)
  qed
qed

text \<open>What a returning retrieval has done, in terms of \<^verbatim>\<open>GetIssues\<close>.\<close>

lemma GetIssues_sound:
  assumes "GetIssues srv j = Some (res, j', reqs)"
  shows "paginates srv (build_jql j) 1000 0 reqs"
    and "j' = cache_all (fetched srv (build_jql j) reqs) j"
    and "res = Inr issues \<Longrightarrow> issues = fetched srv (build_jql j) reqs"
    and "res = Inl msg \<Longrightarrow>
           \<exists>cause. srv (build_jql j) (last reqs) = Inl cause \<and>
                   msg = ''error searching issues: '' @ cause"
  using search_loop_sound [OF assms [unfolded GetIssues_def]] by auto

text \<open>The outcomes of a refresh cycle, by the outcome of its retrieval.\<close>

lemma RefreshData_failed:
  assumes "GetIssues srv j = Some (Inl msg, j', reqs)"
  shows "RefreshData srv P now j = Some (Inr (Failed msg, j'))"
  using assms by (simp add: RefreshData_def)

lemma RefreshData_refreshed:
  assumes "GetIssues srv j = Some (Inr issues, j', reqs)"
    and "\<forall>i \<in> set issues. Issue_Fields i \<noteq> None"
  shows "RefreshData srv P now j =
           Some (Inr (Refreshed (length issues), j'\<lparr>lastRefresh := now\<rparr>))"
proof -
  from convert_all_present [OF assms(2)] obtain outs
    where all: "list_all2 (\<lambda>i out. convert_issue P i = Inr out) issues outs" ..
  then have "ConvertToCustomIssues P j' issues = (Inr (outs, None), j')"
    by (simp add: ConvertToCustomIssues_Inr)
  moreover have "length outs = length issues"
    using all by (simp add: list_all2_lengthD)
  ultimately show ?thesis
    using assms(1) by (simp add: RefreshData_def)
qed

lemma RefreshData_Refreshed_inv:
  assumes "RefreshData srv P now j = Some (Inr (Refreshed n, j''))"
  shows "\<exists>issues j' reqs. GetIssues srv j = Some (Inr issues, j', reqs) \<and>
           n = length issues \<and> j'' = j'\<lparr>lastRefresh := now\<rparr>"
proof (cases "GetIssues srv j")
  case None
  with assms show ?thesis by (simp add: RefreshData_def)
next
  case (Some y)
  obtain res j' reqs where y: "y = (res, j', reqs)" by (cases y) auto
  show ?thesis
  proof (cases res)
    case (Inl msg)
    with assms Some y show ?thesis by (simp add: RefreshData_def)
  next
    case (Inr issues)
    obtain r jc where conv: "ConvertToCustomIssues P j' issues = (r, jc)"
      by (cases "ConvertToCustomIssues P j' issues") auto
    show ?thesis
    proof (cases r)
      case (Inl p)
      with assms Some y Inr conv show ?thesis by (simp add: RefreshData_def)
    next
      case r: (Inr pair)
      obtain outs err where pair: "pair = (outs, err)" by (cases pair) auto
      from conv r pair have ok: "err = None" "jc = j'" "length outs = length issues"
        by (auto simp: ConvertToCustomIssues_Inr list_all2_lengthD)
      with assms Some y Inr conv r pair show ?thesis by (simp add: RefreshData_def)
    qed
  qed
qed

lemma RefreshData_lastRefresh:
  assumes "RefreshData srv P now j = Some (Inr (r, j''))"
  shows "lastRefresh j'' = (if succeeded r then now else lastRefresh j)"
proof (cases r)
  case (Refreshed n)
  with RefreshData_Refreshed_inv [of srv P now j n j''] assms show ?thesis by auto
next
  case (Failed msg)
  show ?thesis
  proof (cases "GetIssues srv j")
    case None
    with assms show ?thesis by (simp add: RefreshData_def)
  next
    case (Some y)
    obtain res j' reqs where y: "y = (res, j', reqs)" by (cases y) auto
    show ?thesis
    proof (cases res)
      case (Inl m)
      with assms Some y Failed have "j'' = j'" by (simp add: RefreshData_def)
      with GetIssues_sound(2) [OF Some [unfolded y]] Failed show ?thesis
        by (simp add: cache_all_frame)
    next
      case (Inr issues)
      obtain r' jc where conv: "ConvertToCustomIssues P j' issues = (r', jc)"
        by (cases "ConvertToCustomIssues P j' issues") auto
      show ?thesis
      proof (cases r')
        case (Inl p)
        with assms Some y Inr conv show ?thesis by (simp add: RefreshData_def)
      next
        case r': (Inr pair)
        obtain outs err where pair: "pair = (outs, err)" by (cases pair) auto
        from conv r' pair have "err = None"
          by (auto simp: ConvertToCustomIssues_Inr)
        with assms Some y Inr conv r' pair Failed show ?thesis by (simp add: RefreshData_def)
      qed
    qed
  qed
qed




lemma GetIssues_server_down:
  "GetIssues server_down j =
     Some (Inl ''error searching issues: connection refused'', j, [page_request 0 1000])"
  unfolding GetIssues_def
  by (subst search_loop_unfold) (simp add: server_down_def)

lemma numbered_issue_ID:
  "Issue_ID (numbered_issue 0) = ''20000''" "Issue_ID (numbered_issue 1) = ''20001''"
  "Issue_ID (numbered_issue (Suc 0)) = ''20001''"
  by (simp_all add: numbered_issue_def)

lemma numbered_issue_Fields: "Issue_Fields (numbered_issue n) \<noteq> None"
  by (simp add: numbered_issue_def)

lemma first_cycle:
  "RefreshData (list_server [numbered_issue 0]) P 63844884000000000000 inci_client =
     Some (Inr (Refreshed 1, after_first_cycle))"
proof -
  have get: "GetIssues (list_server [numbered_issue 0]) inci_client =
      Some (Inr [numbered_issue 0], cache_all [numbered_issue 0] inci_client, [page_request 0 1000])"
    by (rule GetIssues_one_page) simp
  have "\<forall>i \<in> set [numbered_issue 0]. Issue_Fields i \<noteq> None"
    by (simp add: numbered_issue_Fields)
  from RefreshData_refreshed [OF get this] show ?thesis
    by (simp add: after_first_cycle_def)
qed

lemma second_cycle:
  "RefreshData (list_server [numbered_issue 1]) P 63844884300000000000 after_first_cycle =
     Some (Inr (Refreshed 1, after_second_cycle))"
proof -
  have get: "GetIssues (list_server [numbered_issue 1]) after_first_cycle =
      Some (Inr [numbered_issue 1], cache_all [numbered_issue 1] after_first_cycle,
            [page_request 0 1000])"
    by (rule GetIssues_one_page) simp
  have "\<forall>i \<in> set [numbered_issue 1]. Issue_Fields i \<noteq> None"
    by (simp add: numbered_issue_Fields)
  from RefreshData_refreshed [OF get this] show ?thesis
    by (simp add: after_second_cycle_def)
qed

lemma third_cycle:
  "RefreshData server_down P now after_second_cycle =
     Some (Inr (Failed ''error searching issues: connection refused'', after_second_cycle))"
  by (rule RefreshData_failed) (rule GetIssues_server_down)

lemma cache_after_cycles:
  "issueCache inci_client ''20000'' = None"
  "issueCache after_first_cycle ''20000'' = Some (numbered_issue 0)"
  "issueCache after_second_cycle ''20000'' = Some (numbered_issue 0)"
  "issueCache after_second_cycle ''20001'' = Some (numbered_issue 1)"
  by (simp_all add: inci_client_def after_first_cycle_def after_second_cycle_def cache_all_def
        updateIssueCache_def numbered_issue_ID)




text \<open>
  C2 (as amended). On every successful refresh cycle the issues returned by that cycle's
  retrieval are written into the cached mapping under their identifiers, over the entries
  already there: after the cycle every returned issue is cached under its identifier (the
  last one returned, should an identifier repeat), and every entry of an earlier cycle whose
  identifier was not returned is still in the cache, unchanged.
\<close>

theorem refresh_merges_into_cache:
  assumes "RefreshData srv P now j = Some (Inr (Refreshed n, j''))"
  shows "\<exists>issues j' reqs.
           GetIssues srv j = Some (Inr issues, j', reqs) \<and> n = length issues \<and>
           (\<forall>i \<in> set issues.
              issueCache j'' (Issue_ID i) =
                Some (last (filter (\<lambda>x. Issue_ID x = Issue_ID i) issues))) \<and>
           (\<forall>k. k \<notin> Issue_ID ` set issues \<longrightarrow> issueCache j'' k = issueCache j k)"
proof -
  from RefreshData_Refreshed_inv [OF assms] obtain issues j' reqs
    where get: "GetIssues srv j = Some (Inr issues, j', reqs)"
      and n: "n = length issues" and j'': "j'' = j'\<lparr>lastRefresh := now\<rparr>"
    by blast
  have all: "issues = fetched srv (build_jql j) reqs"
    by (rule GetIssues_sound(3) [OF get]) simp
  have j': "j' = cache_all issues j"
    unfolding all by (rule GetIssues_sound(2) [OF get])
  have hit: "\<forall>i \<in> set issues.
              issueCache j'' (Issue_ID i) =
                Some (last (filter (\<lambda>x. Issue_ID x = Issue_ID i) issues))"
    by (simp add: j'' j' cache_all_hit)
  have miss: "\<forall>k. k \<notin> Issue_ID ` set issues \<longrightarrow> issueCache j'' k = issueCache j k"
    by (simp add: j'' j' cache_all_miss)
  from get n hit miss show ?thesis by blast
qed

theorem refresh_merges_into_cache_witness:
  "RefreshData (list_server [numbered_issue 1]) sample_Parse 63844884300000000000
     after_first_cycle = Some (Inr (Refreshed 1, after_second_cycle)) \<and>
   GetIssues (list_server [numbered_issue 1]) after_first_cycle =
     Some (Inr [numbered_issue 1], cache_all [numbered_issue 1] after_first_cycle,
           [page_request 0 1000]) \<and>
   issueCache after_second_cycle (Issue_ID (numbered_issue 1)) = Some (numbered_issue 1) \<and>
   issueCache after_second_cycle ''20000'' = issueCache after_first_cycle ''20000'' \<and>
   issueCache after_first_cycle ''20000'' = Some (numbered_issue 0)"
proof -
  have run: "RefreshData (list_server [numbered_issue 1]) sample_Parse 63844884300000000000
     after_first_cycle = Some (Inr (Refreshed 1, after_second_cycle))"
    by (rule second_cycle)
  have get: "GetIssues (list_server [numbered_issue 1]) after_first_cycle =
     Some (Inr [numbered_issue 1], cache_all [numbered_issue 1] after_first_cycle,
           [page_request 0 1000])"
    by (rule GetIssues_one_page) simp
  from refresh_merges_into_cache [OF run] obtain issues j' reqs
    where got: "GetIssues (list_server [numbered_issue 1]) after_first_cycle =
                  Some (Inr issues, j', reqs)"
      and hit: "\<forall>i \<in> set issues.
              issueCache after_second_cycle (Issue_ID i) =
                Some (last (filter (\<lambda>x. Issue_ID x = Issue_ID i) issues))"
      and miss: "\<forall>k. k \<notin> Issue_ID ` set issues \<longrightarrow>
              issueCache after_second_cycle k = issueCache after_first_cycle k"
    by blast
  from got get have issues: "issues = [numbered_issue 1]" by simp
  have new: "issueCache after_second_cycle (Issue_ID (numbered_issue 1)) = Some (numbered_issue 1)"
    using hit unfolding issues by simp
  have "''20000'' \<notin> Issue_ID ` set [numbered_issue 1]"
    by (simp add: numbered_issue_ID)
  with miss have old: "issueCache after_second_cycle ''20000'' = issueCache after_first_cycle ''20000''"
    unfolding issues by blast
  from run get new old cache_after_cycles(2) show ?thesis by (intro conjI)
qed

text \<open>
  The claim as first stated, with the cache holding exactly the issues of the last
  retrieval, fails: after a first cycle that retrieved issue 20000 and a second that
  retrieved issue 20001 alone, issue 20000 is still in the cache.
\<close>

theorem cache_keeps_earlier_entries:
  "RefreshData (list_server [numbered_issue 0]) sample_Parse 63844884000000000000 inci_client =
     Some (Inr (Refreshed 1, after_first_cycle)) \<and>
   GetIssues (list_server [numbered_issue 1]) after_first_cycle =
     Some (Inr [numbered_issue 1], cache_all [numbered_issue 1] after_first_cycle,
           [page_request 0 1000]) \<and>
   RefreshData (list_server [numbered_issue 1]) sample_Parse 63844884300000000000
     after_first_cycle = Some (Inr (Refreshed 1, after_second_cycle)) \<and>
   issueCache after_second_cycle ''20000'' = Some (numbered_issue 0) \<and>
   ''20000'' \<notin> Issue_ID ` set [numbered_issue 1] \<and>
   dom (issueCache after_second_cycle) \<noteq> Issue_ID ` set [numbered_issue 1]"
proof -
  have get: "GetIssues (list_server [numbered_issue 1]) after_first_cycle =
     Some (Inr [numbered_issue 1], cache_all [numbered_issue 1] after_first_cycle,
           [page_request 0 1000])"
    by (rule GetIssues_one_page) simp
  have notin: "''20000'' \<notin> Issue_ID ` set [numbered_issue 1]"
    by (simp add: numbered_issue_ID)
  have "''20000'' \<in> dom (issueCache after_second_cycle)"
    using cache_after_cycles(3) by blast
  with notin have differ: "dom (issueCache after_second_cycle) \<noteq> Issue_ID ` set [numbered_issue 1]"
    by metis
  from first_cycle [of sample_Parse] get second_cycle [of sample_Parse]
    cache_after_cycles(3) notin differ
  show ?thesis by (intro conjI)
qed

text \<open>
  The times recorded by the successful cycles of a run are clock readings of that run, and
  they are in order when the readings are.
\<close>

lemma refresh_cycles_recorded:
  assumes "refresh_cycles P cycles j = Some (Inr results)"
    and "sorted (map snd cycles)"
  shows "sorted (map (\<lambda>x. lastRefresh (snd x)) (filter (\<lambda>x. succeeded (fst x)) results)) \<and>
         (\<forall>x \<in> set (filter (\<lambda>x. succeeded (fst x)) results).
            lastRefresh (snd x) \<in> set (map snd cycles))"
  using assms
proof (induction cycles arbitrary: j results)
  case Nil
  then show ?case by simp
next
  case (Cons c ticks)
  obtain srv now where c: "c = (srv, now)" by (cases c) auto
  from Cons.prems(1) c obtain r j' rs
    where step: "RefreshData srv P now j = Some (Inr (r, j'))"
      and rest: "refresh_cycles P ticks j' = Some (Inr rs)"
      and results: "results = (r, j') # rs"
    by (auto split: option.splits sum.splits prod.splits)
  from Cons.prems(2) c have later: "\<forall>t \<in> set (map snd ticks). now \<le> t"
    and sorted_ticks: "sorted (map snd ticks)"
    by simp_all
  note IH = Cons.IH [OF rest sorted_ticks]
  show ?case
  proof (cases "succeeded r")
    case True
    with RefreshData_lastRefresh [OF step] have now: "lastRefresh j' = now" by simp
    have "now \<le> lastRefresh (snd x)"
      if "x \<in> set (filter (\<lambda>x. succeeded (fst x)) rs)" for x
    proof -
      from IH that have "lastRefresh (snd x) \<in> set (map snd ticks)" by blast
      with later show ?thesis by blast
    qed
    with True IH now show ?thesis
      unfolding results c by auto
  next
    case False
    with IH show ?thesis
      unfolding results c by auto
  qed
qed

text \<open>
  C9. Across the cycles of the refresh loop, the times recorded in \<open>lastRefresh\<close> by the
  successful cycles are non-decreasing, provided the clock readings taken at the commits are
  non-decreasing: each successful cycle records a time no earlier than the one recorded by
  the successful cycle before it.
\<close>

theorem lastRefresh_monotone:
  assumes "StartRefreshLoop P initial ticks j = Some (Inr results)"
    and "sorted (map snd (initial # ticks))"
  shows "sorted (map (\<lambda>x. GetLastRefreshTime (snd x)) (filter (\<lambda>x. succeeded (fst x)) results))"
  using refresh_cycles_recorded [OF assms(1) [unfolded StartRefreshLoop_def] assms(2)]
  by (simp add: GetLastRefreshTime_def)

theorem lastRefresh_monotone_witness:
  "StartRefreshLoop sample_Parse
     (list_server [numbered_issue 0], 63844884000000000000)
     [(list_server [numbered_issue 1], 63844884300000000000),
      (server_down, 63844884600000000000)]
     inci_client =
     Some (Inr [(Refreshed 1, after_first_cycle), (Refreshed 1, after_second_cycle),
                (Failed ''error searching issues: connection refused'', after_second_cycle)]) \<and>
   sorted [63844884000000000000, 63844884300000000000, 63844884600000000000 :: int] \<and>
   map (\<lambda>x. GetLastRefreshTime (snd x))
     (filter (\<lambda>x. succeeded (fst x))
        [(Refreshed 1, after_first_cycle), (Refreshed 1, after_second_cycle),
         (Failed ''error searching issues: connection refused'', after_second_cycle)]) =
     [63844884000000000000, 63844884300000000000] \<and>
   sorted (map (\<lambda>x. GetLastRefreshTime (snd x))
     (filter (\<lambda>x. succeeded (fst x))
        [(Refreshed 1, after_first_cycle), (Refreshed 1, after_second_cycle),
         (Failed ''error searching issues: connection refused'', after_second_cycle)])) \<and>
   GetLastRefreshTime after_second_cycle = 63844884300000000000"
proof -
  let ?results = "[(Refreshed 1, after_first_cycle), (Refreshed 1, after_second_cycle),
                (Failed ''error searching issues: connection refused'', after_second_cycle)]"
  have run: "StartRefreshLoop sample_Parse
     (list_server [numbered_issue 0], 63844884000000000000)
     [(list_server [numbered_issue 1], 63844884300000000000),
      (server_down, 63844884600000000000)]
     inci_client = Some (Inr ?results)"
    by (simp only: StartRefreshLoop_def refresh_cycles.simps first_cycle second_cycle
          third_cycle option.case sum.case prod.case)
  have clock: "sorted (map snd
     ((list_server [numbered_issue 0], 63844884000000000000 :: int) #
      [(list_server [numbered_issue 1], 63844884300000000000),
       (server_down, 63844884600000000000)]))"
    by simp
  have clock': "sorted [63844884000000000000, 63844884300000000000, 63844884600000000000 :: int]"
    by simp
  have recorded: "map (\<lambda>x. GetLastRefreshTime (snd x))
     (filter (\<lambda>x. succeeded (fst x)) ?results) =
     [63844884000000000000, 63844884300000000000]"
    by (simp add: GetLastRefreshTime_def after_first_cycle_def after_second_cycle_def)
  have last: "GetLastRefreshTime after_second_cycle = 63844884300000000000"
    by (simp add: GetLastRefreshTime_def after_second_cycle_def)
  from run clock' recorded lastRefresh_monotone [OF run clock] last
  show ?thesis by (intro conjI)
qed

end
